theory Spec2Isabelle
  imports Main "HOL-Library.Sublist"
begin

section \<open>JavaScript values\<close>

text \<open>
  The two variants of the action's main module (\<^verbatim>\<open>src/unnamed/part_000\<close>, the minimal
  one, and \<^verbatim>\<open>src/unnamed/part_001\<close>, the richer one) are embedded as functions of a
  \<open>world\<close> (what the collaborators of the module answer) and of a \<open>state\<close> (the trace of
  the calls made so far and the module-level variable \<^verbatim>\<open>jobId\<close>).

  A JavaScript \<^verbatim>\<open>Error\<close> object is its \<^verbatim>\<open>name\<close> and its \<^verbatim>\<open>message\<close>. A thrown value
  is either such an object (\<^verbatim>\<open>error instanceof Error\<close> holds) or anything else.
\<close>

datatype js_error = JsError (error_name: string) (error_message: string)

datatype thrown = Error js_error | NonError string

text \<open>\<^verbatim>\<open>Error.prototype.toString\<close>, which a template literal and \<^verbatim>\<open>join\<close> apply.\<close>

definition Error_toString :: "js_error \<Rightarrow> string" where
  "Error_toString e =
     (if error_name e = [] then error_message e
      else if error_message e = [] then error_name e
      else error_name e @ '': '' @ error_message e)"

text \<open>
  The elements of the arrays that \<^verbatim>\<open>setFailed\<close> and \<^verbatim>\<open>dependabotJobUrl\<close> filter with
  \<^verbatim>\<open>Boolean\<close> and join: strings, an Error, a number, \<^verbatim>\<open>null\<close> or \<^verbatim>\<open>undefined\<close>.
\<close>

datatype js_item = Str string | Err js_error | Num int | Nullish

fun Boolean :: "js_item \<Rightarrow> bool" where
  "Boolean (Str s) = (s \<noteq> [])"
| "Boolean (Err e) = True"
| "Boolean (Num n) = (n \<noteq> 0)"
| "Boolean Nullish = False"

fun join :: "string \<Rightarrow> string list \<Rightarrow> string" where
  "join sep [] = []"
| "join sep [x] = x"
| "join sep (x # y # ys) = x @ sep @ join sep (y # ys)"

text \<open>\<^verbatim>\<open>a || b\<close> on an optional string: \<^verbatim>\<open>undefined\<close> and the empty string are falsy.\<close>

definition or_else :: "string option \<Rightarrow> string \<Rightarrow> string" where
  "or_else a b = (case a of None \<Rightarrow> b | Some v \<Rightarrow> if v = [] then b else v)"

section \<open>Data model\<close>

datatype DependabotErrorType = Unknown | Image | UpdateRun


text \<open>
  \<^verbatim>\<open>Credential\<close>, \<^verbatim>\<open>ApiClient\<close> and the job parameters of \<^verbatim>\<open>getJobParameters\<close> are
  declared in modules that are not among the sources; the main module only passes
  them on. A credential is its list of fields, the job parameters are the four fields
  the main module reads, and an API client is the arguments of its constructor.
\<close>

datatype Credential = Credential "(string \<times> string) list"

record JobParameters =
  p_jobId :: int
  p_jobToken :: string
  p_credentialsToken :: string
  p_dependabotApiUrl :: string

datatype ApiClient = ApiClient JobParameters string string

text \<open>The job details: \<^verbatim>\<open>experiments\<close> is an optional object, given by its own properties.\<close>

record JobDetails =
  experiments :: "(string \<times> bool) list option"

record DependabotJobParameters =
  jobToken :: string
  dependabotApiUrl :: string
  cachedMode :: bool
  credentials :: "Credential list"
  apiClient :: "ApiClient option"

text \<open>What \<^verbatim>\<open>proxyBuilder.run\<close> returns, and the two components read off a \<^verbatim>\<open>URL\<close>.\<close>

record Proxy =
  cert :: string
  networkName :: string
  container_id :: string

record URL =
  hostname :: string
  port :: string

text \<open>The options object passed to \<^verbatim>\<open>pkcs12.toPkcs12Asn1\<close>.\<close>

record p12_options =
  algorithm :: string
  friendlyName :: string
  generateLocalKeyId :: bool
  useMac :: bool
  count :: nat
  saltSize :: nat

datatype encoding = Utf8 | Binary

section \<open>The world and the trace\<close>

text \<open>
  Every call that leaves the module is an event of the trace, in the order of the calls.
\<close>

datatype event =
    Info string
  | StartGroup string
  | EndGroup
  | SetFailed string
  | SetSecret string
  | SaveState string string
  | ExportVariable string string
  | GetJobDetails
  | GetCredentials
  | ReportJobError DependabotErrorType string
  | MarkJobAsProcessed
  | Pull string
  | NewProxyBuilder string bool
  | ProxyBuilderRun "int option" string string "Credential list"
  | ContainerStart
  | ProxyUrl
  | MkdirSync string
  | WriteFileSync string string encoding

text \<open>
  The answers of the collaborators. An awaited call either returns (\<open>Inr\<close>) or throws
  (\<open>Inl\<close>). Library functions (\<^verbatim>\<open>JSON.parse\<close>, \<^verbatim>\<open>new URL\<close>, node-forge, \<^verbatim>\<open>path\<close>,
  \<^verbatim>\<open>os\<close>, \<^verbatim>\<open>fs\<close>) are parameters; \<open>fs_error\<close> tells for which path a write or a
  \<^verbatim>\<open>mkdir\<close> throws.
\<close>

record world =
  inputs_json :: string
  getJobParameters :: "JobParameters option"
  process_env :: "string \<Rightarrow> string option"
  getJobDetails :: "thrown + JobDetails"
  getCredentials :: "thrown + Credential list"
  reportJobError :: "thrown + unit"
  markJobAsProcessed :: "thrown + unit"
  JSON_parse :: "string \<Rightarrow> thrown + Credential list"
  number_toString :: "int \<Rightarrow> string"
  PROXY_IMAGE_NAME :: string
  ImageService_pull :: "string \<Rightarrow> thrown + unit"
  proxyBuilder_run :: "thrown + Proxy"
  container_start :: "thrown + unit"
  proxy_url :: "thrown + string"
  new_URL :: "string \<Rightarrow> thrown + URL"
  generateKeyPair :: string
  certificateFromPem :: "string \<Rightarrow> thrown + string"
  toPkcs12Der :: "string option \<Rightarrow> string \<Rightarrow> string option \<Rightarrow> p12_options option \<Rightarrow> string"
  path_resolve :: "string \<Rightarrow> string"
  path_join :: "string \<Rightarrow> string \<Rightarrow> string"
  homedir :: string
  fs_error :: "string \<Rightarrow> thrown option"

record state =
  trace :: "event list"
  jobId :: "int option"

definition initial :: state where
  "initial = \<lparr>trace = [], jobId = None\<rparr>"

definition emit :: "event \<Rightarrow> state \<Rightarrow> state" where
  "emit e s = s\<lparr>trace := trace s @ [e]\<rparr>"

section \<open>Helpers of the main module\<close>

text \<open>The robot emoji of \<^verbatim>\<open>botSay\<close>, as its four UTF-8 bytes.\<close>

definition robot :: string where
  "robot = [CHR 0xF0, CHR 0x9F, CHR 0xA4, CHR 0x96]"

definition botSay :: "string \<Rightarrow> state \<Rightarrow> state" where
  "botSay message s = emit (Info (robot @ '' ~ '' @ message @ '' ~'')) s"

definition item_toString :: "world \<Rightarrow> js_item \<Rightarrow> string" where
  "item_toString w i =
     (case i of Str s \<Rightarrow> s | Err e \<Rightarrow> Error_toString e
      | Num n \<Rightarrow> number_toString w n | Nullish \<Rightarrow> [])"

definition env_item :: "world \<Rightarrow> string \<Rightarrow> js_item" where
  "env_item w k = (case process_env w k of None \<Rightarrow> Nullish | Some v \<Rightarrow> Str v)"

definition dependabotJobUrl :: "world \<Rightarrow> int \<Rightarrow> string" where
  "dependabotJobUrl w i =
     (let url_parts = [env_item w ''GITHUB_SERVER_URL'', env_item w ''GITHUB_REPOSITORY'',
                       Str ''network/updates'', Num i]
      in join ''/'' (map (item_toString w) (filter Boolean url_parts)))"

definition truthy_jobId :: "state \<Rightarrow> bool" where
  "truthy_jobId s = (case jobId s of None \<Rightarrow> False | Some n \<Rightarrow> n \<noteq> 0)"

definition dependabotJobHelp :: "world \<Rightarrow> state \<Rightarrow> js_item" where
  "dependabotJobHelp w s =
     (case jobId s of
        None \<Rightarrow> Nullish
      | Some n \<Rightarrow>
          if n \<noteq> 0
          then Str (''For more information see: '' @ dependabotJobUrl w n
                    @ '' (write access to the repository is required to view the log)'')
          else Nullish)"

definition setFailed :: "world \<Rightarrow> string \<Rightarrow> js_error option \<Rightarrow> state \<Rightarrow> state" where
  "setFailed w message error s =
     (let message' =
        (if truthy_jobId s
         then join [CHR 0x0A, CHR 0x0A]
                (map (item_toString w)
                   (filter Boolean
                      [Str message,
                       (case error of None \<Rightarrow> Nullish | Some e \<Rightarrow> Err e),
                       dependabotJobHelp w s]))
         else message)
      in emit (SetFailed message') s)"

text \<open>
  \<^verbatim>\<open>failJob\<close> awaits \<^verbatim>\<open>apiClient.reportJobError\<close> and then
  \<^verbatim>\<open>apiClient.markJobAsProcessed\<close>; each call is an event of the trace, and when it
  rejects, \<^verbatim>\<open>failJob\<close> rejects at once, before \<^verbatim>\<open>setFailed\<close>.
\<close>

definition failJob ::
  "world \<Rightarrow> ApiClient option \<Rightarrow> string \<Rightarrow> js_error \<Rightarrow> DependabotErrorType \<Rightarrow> state
   \<Rightarrow> state \<times> (thrown + unit)" where
  "failJob w client message error errorType s =
     (case (case client of
              None \<Rightarrow> (s, Inr ())
            | Some c \<Rightarrow>
                (let s1 = emit (ReportJobError errorType (error_message error)) s in
                 case reportJobError w of
                   Inl e \<Rightarrow> (s1, Inl e)
                 | Inr u \<Rightarrow>
                     (let s2 = emit MarkJobAsProcessed s1 in
                      case markJobAsProcessed w of
                        Inl e \<Rightarrow> (s2, Inl e)
                      | Inr u \<Rightarrow> (s2, Inr ())))) of
        (s3, Inl e) \<Rightarrow> (s3, Inl e)
      | (s3, Inr u) \<Rightarrow>
          (botSay ''finished: error reported to Dependabot''
             (setFailed w message (Some error) s3),
           Inr ()))"

text \<open>
  \<^verbatim>\<open>JSON.parse\<close> of the text \<^verbatim>\<open>[]\<close> is the empty array; any other text is left to the
  world.
\<close>

definition getCredentialsFromEnv :: "world \<Rightarrow> thrown + DependabotJobParameters" where
  "getCredentialsFromEnv w =
     (let credentialsText = or_else (process_env w ''DEPENDABOT_CREDENTIALS'') ''[]'' in
      case (if credentialsText = ''[]'' then Inr [] else JSON_parse w credentialsText) of
        Inl e \<Rightarrow> Inl e
      | Inr cs \<Rightarrow>
          Inr \<lparr>jobToken = [], dependabotApiUrl = [], cachedMode = True,
               credentials = cs, apiClient = None\<rparr>)"

text \<open>
  \<^verbatim>\<open>details.experiments?.hasOwnProperty('proxy-cached') === true\<close>: false when
  \<^verbatim>\<open>experiments\<close> is absent; otherwise the method found on the object is called, which is
  \<^verbatim>\<open>Object.prototype.hasOwnProperty\<close> unless an own property of that name (a boolean here,
  not a function) shadows it, and then the call throws a \<^verbatim>\<open>TypeError\<close>.
\<close>

definition has_proxy_cached :: "JobDetails \<Rightarrow> thrown + bool" where
  "has_proxy_cached details =
     (case experiments details of
        None \<Rightarrow> Inr False
      | Some props \<Rightarrow>
          if ''hasOwnProperty'' \<in> set (map fst props)
          then Inl (Error (JsError ''TypeError''
                       ''details.experiments?.hasOwnProperty is not a function''))
          else Inr (''proxy-cached'' \<in> set (map fst props)))"

text \<open>The body of the \<^verbatim>\<open>try\<close> block of \<^verbatim>\<open>getDependabotJobParameters\<close>.\<close>

definition fetch_job ::
  "world \<Rightarrow> JobParameters \<Rightarrow> string \<Rightarrow> string \<Rightarrow> state \<Rightarrow> state \<times> (thrown + DependabotJobParameters)" where
  "fetch_job w params tok credentialsToken s =
     (let s1 = emit GetJobDetails (emit (Info ''Fetching job details'') s) in
      case getJobDetails w of
        Inl e \<Rightarrow> (s1, Inl e)
      | Inr details \<Rightarrow>
          let s2 = emit GetCredentials s1 in
          (case getCredentials w of
             Inl e \<Rightarrow> (s2, Inl e)
           | Inr cs \<Rightarrow>
               (case has_proxy_cached details of
                  Inl e \<Rightarrow> (s2, Inl e)
                | Inr cached \<Rightarrow>
                    (s2, Inr \<lparr>jobToken = tok,
                              dependabotApiUrl = p_dependabotApiUrl params,
                              cachedMode = cached,
                              credentials = cs,
                              apiClient = Some (ApiClient params tok credentialsToken)\<rparr>))))"

definition getDependabotJobParameters ::
  "world \<Rightarrow> state \<Rightarrow> state \<times> (thrown + DependabotJobParameters option)" where
  "getDependabotJobParameters w s =
     (case getJobParameters w of
        None \<Rightarrow> (botSay ''finished: nothing to do'' s, Inr None)
      | Some params \<Rightarrow>
          let tok = or_else (process_env w ''GITHUB_DEPENDABOT_JOB_TOKEN'') (p_jobToken params);
              credentialsToken =
                or_else (process_env w ''GITHUB_DEPENDABOT_CRED_TOKEN'') (p_credentialsToken params)
          in
          if tok = [] then
            (let errorMessage = ''Github Dependabot job token is not set'' in
             (emit (SetFailed errorMessage) (botSay (''finished: '' @ errorMessage) s), Inr None))
          else if credentialsToken = [] then
            (let errorMessage = ''Github Dependabot credentials token is not set'' in
             (emit (SetFailed errorMessage) (botSay (''finished: '' @ errorMessage) s), Inr None))
          else
            (let s1 = s\<lparr>jobId := Some (p_jobId params)\<rparr>;
                 s2 = emit (SetSecret credentialsToken) (emit (SetSecret tok) s1)
             in
             case fetch_job w params tok credentialsToken s2 of
               (s3, Inr r) \<Rightarrow> (s3, Inr (Some r))
             | (s3, Inl (Error error)) \<Rightarrow>
                 (botSay (''finished: unexpected error: '' @ Error_toString error)
                    (setFailed w ''Dependabot encountered an unexpected problem'' (Some error) s3),
                  Inr None)
             | (s3, Inl (NonError v)) \<Rightarrow> (s3, Inl (NonError v))))"

section \<open>The main flow\<close>

text \<open>
  \<open>run_until_proxyUrl\<close> is \<^verbatim>\<open>run\<close> of \<^verbatim>\<open>part_001\<close> up to and including
  \<^verbatim>\<open>const proxyUrl = new URL(await proxy.url())\<close>. It returns \<open>None\<close> when \<^verbatim>\<open>run\<close> returns early (after
  \<^verbatim>\<open>failJob\<close>), and the proxy with its parsed URL otherwise. A rejected promise is
  \<open>Inl\<close>.
\<close>

definition run_until_proxyUrl :: "world \<Rightarrow> state \<Rightarrow> state \<times> (thrown + (Proxy \<times> URL) option)" where
  "run_until_proxyUrl w s =
     (let s1 = emit EndGroup (emit (StartGroup ''Pstart'')
                 (botSay ''starting update'' (botSay (inputs_json w) s)))
      in
      case getDependabotJobParameters w s1 of
        (s2, Inl e) \<Rightarrow> (s2, Inl e)
      | (s2, Inr jobParameters) \<Rightarrow>
      (case (case jobParameters of Some p \<Rightarrow> Inr p | None \<Rightarrow> getCredentialsFromEnv w) of
        Inl e \<Rightarrow> (s2, Inl e)
      | Inr jp \<Rightarrow>
      (let s3 = emit (Pull (PROXY_IMAGE_NAME w))
                  (emit EndGroup (emit (StartGroup ''Pulling updater images'') s2))
       in
       case ImageService_pull w (PROXY_IMAGE_NAME w) of
         Inl (Error error) \<Rightarrow>
           (case failJob w (apiClient jp)
                   (''Error fetching updater images'' @ error_message error) error Image s3 of
              (s4, Inl e) \<Rightarrow> (s4, Inl e)
            | (s4, Inr u) \<Rightarrow> (s4, Inr None))
       | _ \<Rightarrow>
       (let s4 = emit EndGroup s3;
            s5 = botSay ''initialize proxy builder'' s4;
            s6 = emit (NewProxyBuilder (PROXY_IMAGE_NAME w) (cachedMode jp)) s5;
            s7 = botSay ''building proxy'' s6;
            s8 = emit (ProxyBuilderRun (jobId s7) (jobToken jp) (dependabotApiUrl jp)
                         (credentials jp)) s7
        in
        case proxyBuilder_run w of
          Inl e \<Rightarrow> (s8, Inl e)
        | Inr proxy \<Rightarrow>
        (let s9 = emit ContainerStart (botSay ''start proxy'' s8) in
         case container_start w of
           Inl e \<Rightarrow> (s9, Inl e)
         | Inr u \<Rightarrow>
         (let s10 = emit ProxyUrl (emit (SaveState ''PROXY_CONTAINER_ID'' (container_id proxy)) s9)
          in
          case proxy_url w of
            Inl e \<Rightarrow> (s10, Inl e)
          | Inr text \<Rightarrow>
          (case new_URL w text of
             Inl e \<Rightarrow> (s10, Inl e)
           | Inr proxyUrl \<Rightarrow> (s10, Inr (Some (proxy, proxyUrl))))))))))"

text \<open>\<^verbatim>\<open>writeFileSync\<close> and \<^verbatim>\<open>mkdirSync\<close>: an event, unless the file system throws.\<close>

definition writeFileSync :: "world \<Rightarrow> string \<Rightarrow> string \<Rightarrow> encoding \<Rightarrow> state \<Rightarrow> state \<times> (thrown + unit)" where
  "writeFileSync w path content enc s =
     (case fs_error w path of
        Some e \<Rightarrow> (s, Inl e)
      | None \<Rightarrow> (emit (WriteFileSync path content enc) s, Inr ()))"

definition mkdirSync :: "world \<Rightarrow> string \<Rightarrow> state \<Rightarrow> state \<times> (thrown + unit)" where
  "mkdirSync w path s =
     (case fs_error w path of
        Some e \<Rightarrow> (s, Inl e)
      | None \<Rightarrow> (emit (MkdirSync path) s, Inr ()))"

definition JAVA_PROXY_OPTS :: "URL \<Rightarrow> string" where
  "JAVA_PROXY_OPTS proxyUrl =
     ''-Dhttp.proxyHost='' @ hostname proxyUrl @ '' -Dhttp.proxyPort='' @ port proxyUrl
     @ '' -Dhttps.proxyHost='' @ hostname proxyUrl @ '' -Dhttps.proxyPort='' @ port proxyUrl"

subsection \<open>The richer variant (\<^verbatim>\<open>part_001\<close>)\<close>

definition password :: string where
  "password = ''changeit''"

definition dummy_key_options :: p12_options where
  "dummy_key_options =
     \<lparr>algorithm = ''3des'', friendlyName = ''mykey'', generateLocalKeyId = False,
      useMac = True, count = 10000, saltSize = 20\<rparr>"

definition JAVA_SSL_OPTS :: "string \<Rightarrow> string" where
  "JAVA_SSL_OPTS trustStore =
     ''-Djavax.net.ssl.trustStore='' @ trustStore
     @ '' -Djavax.net.ssl.trustStoreType=PKCS12 -Djavax.net.ssl.trustStorePassword=''
     @ password"

text \<open>A backslash at the end of a line of the template literal continues the line.\<close>

definition settings :: "URL \<Rightarrow> string" where
  "settings proxyUrl =
     ''<settings xmlns=\"http://maven.apache.org/SETTINGS/1.2.0\" xmlns:xsi=\"http://www.w3.org/2001/XMLSchema-instance\" ''
     @ ''    xsi:schemaLocation=\"http://maven.apache.org/SETTINGS/1.2.0 http://maven.apache.org/xsd/settings-1.2.0.xsd\">''
     @ ''    <proxies>''
     @ ''      <proxy><protocol>http</protocol><host>'' @ hostname proxyUrl
     @ ''</host><port>'' @ port proxyUrl @ ''</port></proxy>''
     @ ''      <proxy><protocol>https</protocol><host>'' @ hostname proxyUrl
     @ ''</host><port>'' @ port proxyUrl @ ''</port></proxy>''
     @ ''    </proxies>''
     @ ''  </settings>''"

definition export_variables :: "world \<Rightarrow> Proxy \<Rightarrow> URL \<Rightarrow> string \<Rightarrow> string \<Rightarrow> state \<Rightarrow> state" where
  "export_variables w proxy proxyUrl trustStore pemFile s =
     (let s1 = emit (ExportVariable ''MAVEN_OPTS''
                  (JAVA_SSL_OPTS trustStore @ '' -DproxySet=true '' @ JAVA_PROXY_OPTS proxyUrl
                   @ '' '' @ or_else (process_env w ''MAVEN_OPTS'') [])) s;
          s2 = emit (ExportVariable ''GRADLE_OPTS''
                  (JAVA_SSL_OPTS trustStore @ '' '' @ JAVA_PROXY_OPTS proxyUrl
                   @ '' '' @ or_else (process_env w ''GRADLE_OPTS'') [])) s1;
          s3 = emit (ExportVariable ''SEMMLE_JAVA_EXTRACTOR_JVM_ARGS''
                  (JAVA_SSL_OPTS trustStore @ '' '' @ JAVA_PROXY_OPTS proxyUrl
                   @ '' '' @ or_else (process_env w ''SEMMLE_JAVA_EXTRACTOR_JVM_ARGS'') [])) s2;
          s4 = emit (ExportVariable ''CODEQL_JAVA_EXTRACTOR_TRUST_STORE_PATH'' trustStore) s3;
          s5 = emit (ExportVariable ''PROXY_NETWORK_NAME'' (networkName proxy)) s4;
          s6 = emit (ExportVariable ''PROXY_HOST'' (hostname proxyUrl)) s5;
          s7 = emit (ExportVariable ''PROXY_PORT'' (port proxyUrl)) s6
      in emit (ExportVariable ''PROXY_CA_CERT'' pemFile) s7)"

text \<open>The part of the richer \<^verbatim>\<open>run\<close> after \<^verbatim>\<open>proxyUrl\<close> is known.\<close>

definition publish :: "world \<Rightarrow> Proxy \<Rightarrow> URL \<Rightarrow> state \<Rightarrow> state \<times> (thrown + unit)" where
  "publish w proxy proxyUrl s =
     (case certificateFromPem w (cert proxy) of
        Inl e \<Rightarrow> (s, Inl e)
      | Inr certificate \<Rightarrow>
      (let p12 = toPkcs12Der w (Some (generateKeyPair w)) certificate (Some password)
                   (Some dummy_key_options);
           trustStore = path_resolve w ''keystore.p12'';
           pemFile = path_resolve w ''cert.pem''
       in
       case writeFileSync w trustStore p12 Binary s of
         (s1, Inl e) \<Rightarrow> (s1, Inl e)
       | (s1, Inr u) \<Rightarrow>
       (case writeFileSync w pemFile (cert proxy) Utf8 s1 of
          (s2, Inl e) \<Rightarrow> (s2, Inl e)
        | (s2, Inr u) \<Rightarrow>
        (let m2_dir = path_join w (homedir w) ''.m2'' in
         case mkdirSync w m2_dir s2 of
           (s3, Inl e) \<Rightarrow> (s3, Inl e)
         | (s3, Inr u) \<Rightarrow>
         (case writeFileSync w (path_join w m2_dir ''settings.xml'') (settings proxyUrl) Utf8 s3 of
            (s4, Inl e) \<Rightarrow> (s4, Inl e)
          | (s4, Inr u) \<Rightarrow>
              (export_variables w proxy proxyUrl trustStore pemFile s4, Inr ()))))))"

definition run :: "world \<Rightarrow> state \<Rightarrow> state \<times> (thrown + unit)" where
  "run w s =
     (case run_until_proxyUrl w s of
        (s1, Inl e) \<Rightarrow> (s1, Inl e)
      | (s1, Inr None) \<Rightarrow> (s1, Inr ())
      | (s1, Inr (Some (proxy, proxyUrl))) \<Rightarrow> publish w proxy proxyUrl s1)"

subsection \<open>The minimal variant (\<^verbatim>\<open>part_000\<close>)\<close>

text \<open>
  In \<^verbatim>\<open>part_000\<close> the template of \<^verbatim>\<open>botSay\<close> starts with nine other bytes (the emoji
  decoded as Windows-1252 and encoded again). The functions that call \<^verbatim>\<open>botSay\<close> are
  embedded again for this file; \<^verbatim>\<open>setFailed\<close>, \<^verbatim>\<open>dependabotJobHelp\<close>,
  \<^verbatim>\<open>dependabotJobUrl\<close>, \<^verbatim>\<open>getCredentialsFromEnv\<close> and the \<^verbatim>\<open>try\<close> block of
  \<^verbatim>\<open>getDependabotJobParameters\<close> do not call it and are the same text in both files.
\<close>

definition robot_minimal :: string where
  "robot_minimal =
     [CHR 0xC3, CHR 0xB0, CHR 0xC5, CHR 0xB8, CHR 0xC2, CHR 0xA4, CHR 0xE2, CHR 0x80, CHR 0x93]"

definition botSay_minimal :: "string \<Rightarrow> state \<Rightarrow> state" where
  "botSay_minimal message s = emit (Info (robot_minimal @ '' ~ '' @ message @ '' ~'')) s"

definition failJob_minimal ::
  "world \<Rightarrow> ApiClient option \<Rightarrow> string \<Rightarrow> js_error \<Rightarrow> DependabotErrorType \<Rightarrow> state
   \<Rightarrow> state \<times> (thrown + unit)" where
  "failJob_minimal w client message error errorType s =
     (case (case client of
              None \<Rightarrow> (s, Inr ())
            | Some c \<Rightarrow>
                (let s1 = emit (ReportJobError errorType (error_message error)) s in
                 case reportJobError w of
                   Inl e \<Rightarrow> (s1, Inl e)
                 | Inr u \<Rightarrow>
                     (let s2 = emit MarkJobAsProcessed s1 in
                      case markJobAsProcessed w of
                        Inl e \<Rightarrow> (s2, Inl e)
                      | Inr u \<Rightarrow> (s2, Inr ())))) of
        (s3, Inl e) \<Rightarrow> (s3, Inl e)
      | (s3, Inr u) \<Rightarrow>
          (botSay_minimal ''finished: error reported to Dependabot''
             (setFailed w message (Some error) s3),
           Inr ()))"

definition getDependabotJobParameters_minimal ::
  "world \<Rightarrow> state \<Rightarrow> state \<times> (thrown + DependabotJobParameters option)" where
  "getDependabotJobParameters_minimal w s =
     (case getJobParameters w of
        None \<Rightarrow> (botSay_minimal ''finished: nothing to do'' s, Inr None)
      | Some params \<Rightarrow>
          let tok = or_else (process_env w ''GITHUB_DEPENDABOT_JOB_TOKEN'') (p_jobToken params);
              credentialsToken =
                or_else (process_env w ''GITHUB_DEPENDABOT_CRED_TOKEN'') (p_credentialsToken params)
          in
          if tok = [] then
            (let errorMessage = ''Github Dependabot job token is not set'' in
             (emit (SetFailed errorMessage) (botSay_minimal (''finished: '' @ errorMessage) s), Inr None))
          else if credentialsToken = [] then
            (let errorMessage = ''Github Dependabot credentials token is not set'' in
             (emit (SetFailed errorMessage) (botSay_minimal (''finished: '' @ errorMessage) s), Inr None))
          else
            (let s1 = s\<lparr>jobId := Some (p_jobId params)\<rparr>;
                 s2 = emit (SetSecret credentialsToken) (emit (SetSecret tok) s1)
             in
             case fetch_job w params tok credentialsToken s2 of
               (s3, Inr r) \<Rightarrow> (s3, Inr (Some r))
             | (s3, Inl (Error error)) \<Rightarrow>
                 (botSay_minimal (''finished: unexpected error: '' @ Error_toString error)
                    (setFailed w ''Dependabot encountered an unexpected problem'' (Some error) s3),
                  Inr None)
             | (s3, Inl (NonError v)) \<Rightarrow> (s3, Inl (NonError v))))"

definition run_until_proxyUrl_minimal :: "world \<Rightarrow> state \<Rightarrow> state \<times> (thrown + (Proxy \<times> URL) option)" where
  "run_until_proxyUrl_minimal w s =
     (let s1 = emit EndGroup (emit (StartGroup ''Pstart'')
                 (botSay_minimal ''starting update'' (botSay_minimal (inputs_json w) s)))
      in
      case getDependabotJobParameters_minimal w s1 of
        (s2, Inl e) \<Rightarrow> (s2, Inl e)
      | (s2, Inr jobParameters) \<Rightarrow>
      (case (case jobParameters of Some p \<Rightarrow> Inr p | None \<Rightarrow> getCredentialsFromEnv w) of
        Inl e \<Rightarrow> (s2, Inl e)
      | Inr jp \<Rightarrow>
      (let s3 = emit (Pull (PROXY_IMAGE_NAME w))
                  (emit EndGroup (emit (StartGroup ''Pulling updater images'') s2))
       in
       case ImageService_pull w (PROXY_IMAGE_NAME w) of
         Inl (Error error) \<Rightarrow>
           (case failJob_minimal w (apiClient jp)
                   (''Error fetching updater images'' @ error_message error) error Image s3 of
              (s4, Inl e) \<Rightarrow> (s4, Inl e)
            | (s4, Inr u) \<Rightarrow> (s4, Inr None))
       | _ \<Rightarrow>
       (let s4 = emit EndGroup s3;
            s5 = botSay_minimal ''initialize proxy builder'' s4;
            s6 = emit (NewProxyBuilder (PROXY_IMAGE_NAME w) (cachedMode jp)) s5;
            s7 = botSay_minimal ''building proxy'' s6;
            s8 = emit (ProxyBuilderRun (jobId s7) (jobToken jp) (dependabotApiUrl jp)
                         (credentials jp)) s7
        in
        case proxyBuilder_run w of
          Inl e \<Rightarrow> (s8, Inl e)
        | Inr proxy \<Rightarrow>
        (let s9 = emit ContainerStart (botSay_minimal ''start proxy'' s8) in
         case container_start w of
           Inl e \<Rightarrow> (s9, Inl e)
         | Inr u \<Rightarrow>
         (let s10 = emit ProxyUrl (emit (SaveState ''PROXY_CONTAINER_ID'' (container_id proxy)) s9)
          in
          case proxy_url w of
            Inl e \<Rightarrow> (s10, Inl e)
          | Inr text \<Rightarrow>
          (case new_URL w text of
             Inl e \<Rightarrow> (s10, Inl e)
           | Inr proxyUrl \<Rightarrow> (s10, Inr (Some (proxy, proxyUrl))))))))))"

definition JAVA_SSL_OPTS_minimal :: "string \<Rightarrow> string" where
  "JAVA_SSL_OPTS_minimal trustStore =
     ''-Djavax.net.ssl.trustStore='' @ trustStore @ '' -Djavax.net.ssl.trustStoreType=PKCS12''"

definition publish_minimal :: "world \<Rightarrow> Proxy \<Rightarrow> URL \<Rightarrow> state \<Rightarrow> state \<times> (thrown + unit)" where
  "publish_minimal w proxy proxyUrl s =
     (case certificateFromPem w (cert proxy) of
        Inl e \<Rightarrow> (s, Inl e)
      | Inr certificate \<Rightarrow>
      (let p12 = toPkcs12Der w None certificate None None;
           trustStore = ''keystore.p12''
       in
       case writeFileSync w trustStore p12 Utf8 s of
         (s1, Inl e) \<Rightarrow> (s1, Inl e)
       | (s1, Inr u) \<Rightarrow>
       (let s2 = emit (ExportVariable ''MAVEN_OPTS''
                   (JAVA_SSL_OPTS_minimal trustStore @ '' -DproxySet=true ''
                    @ JAVA_PROXY_OPTS proxyUrl
                    @ '' '' @ or_else (process_env w ''MAVEN_OPTS'') [])) s1;
            s3 = emit (ExportVariable ''GRADLE_OPTS''
                   (JAVA_SSL_OPTS_minimal trustStore @ '' '' @ JAVA_PROXY_OPTS proxyUrl
                    @ '' '' @ or_else (process_env w ''GRADLE_OPTS'') [])) s2
        in (s3, Inr ()))))"

definition run_minimal :: "world \<Rightarrow> state \<Rightarrow> state \<times> (thrown + unit)" where
  "run_minimal w s =
     (case run_until_proxyUrl_minimal w s of
        (s1, Inl e) \<Rightarrow> (s1, Inl e)
      | (s1, Inr None) \<Rightarrow> (s1, Inr ())
      | (s1, Inr (Some (proxy, proxyUrl))) \<Rightarrow> publish_minimal w proxy proxyUrl s1)"

section \<open>Observations on traces\<close>

text \<open>The calls that write to the job-control service.\<close>

fun is_status_call :: "event \<Rightarrow> bool" where
  "is_status_call (ReportJobError t m) = True"
| "is_status_call MarkJobAsProcessed = True"
| "is_status_call e = False"

definition status_calls :: "event list \<Rightarrow> event list" where
  "status_calls es = filter is_status_call es"

fun is_SetFailed :: "event \<Rightarrow> bool" where
  "is_SetFailed (SetFailed m) = True"
| "is_SetFailed e = False"


text \<open>The files written, with content and encoding, and the variables exported.\<close>

fun files_written :: "event list \<Rightarrow> (string \<times> string \<times> encoding) list" where
  "files_written [] = []"
| "files_written (WriteFileSync path content enc # es) = (path, content, enc) # files_written es"
| "files_written (e # es) = files_written es"

fun exported :: "event list \<Rightarrow> (string \<times> string) list" where
  "exported [] = []"
| "exported (ExportVariable k v # es) = (k, v) # exported es"
| "exported (e # es) = exported es"

text \<open>
  A run is successful when the promise of \<^verbatim>\<open>run\<close> resolves and the action has not been
  marked failed.
\<close>

definition successful :: "state \<times> (thrown + unit) \<Rightarrow> bool" where
  "successful r = (snd r = Inr () \<and> \<not> list_ex is_SetFailed (trace (fst r)))"

section \<open>Stages of the common part\<close>

text \<open>
  For the proofs, \<open>run_until_proxyUrl\<close> is cut into its consecutive stages
  (lemma \<open>run_until_proxyUrl_staged\<close> below).
\<close>

definition begin_state :: "world \<Rightarrow> state \<Rightarrow> state" where
  "begin_state w s = emit EndGroup (emit (StartGroup ''Pstart'')
                 (botSay ''starting update'' (botSay (inputs_json w) s)))"

definition job_or_env :: "world \<Rightarrow> DependabotJobParameters option \<Rightarrow> thrown + DependabotJobParameters" where
  "job_or_env w jobParameters =
     (case jobParameters of Some p \<Rightarrow> Inr p | None \<Rightarrow> getCredentialsFromEnv w)"

definition stage_url :: "world \<Rightarrow> Proxy \<Rightarrow> state \<Rightarrow> state \<times> (thrown + (Proxy \<times> URL) option)" where
  "stage_url w proxy s9 =
     (let s10 = emit ProxyUrl (emit (SaveState ''PROXY_CONTAINER_ID'' (container_id proxy)) s9)
      in
      case proxy_url w of
        Inl e \<Rightarrow> (s10, Inl e)
      | Inr text \<Rightarrow>
          (case new_URL w text of
             Inl e \<Rightarrow> (s10, Inl e)
           | Inr proxyUrl \<Rightarrow> (s10, Inr (Some (proxy, proxyUrl)))))"

definition stage_start :: "world \<Rightarrow> Proxy \<Rightarrow> state \<Rightarrow> state \<times> (thrown + (Proxy \<times> URL) option)" where
  "stage_start w proxy s8 =
     (let s9 = emit ContainerStart (botSay ''start proxy'' s8) in
      case container_start w of
        Inl e \<Rightarrow> (s9, Inl e)
      | Inr u \<Rightarrow> stage_url w proxy s9)"

definition build_state :: "world \<Rightarrow> DependabotJobParameters \<Rightarrow> state \<Rightarrow> state" where
  "build_state w jp s3 =
     (let s4 = emit EndGroup s3;
          s5 = botSay ''initialize proxy builder'' s4;
          s6 = emit (NewProxyBuilder (PROXY_IMAGE_NAME w) (cachedMode jp)) s5;
          s7 = botSay ''building proxy'' s6
      in emit (ProxyBuilderRun (jobId s7) (jobToken jp) (dependabotApiUrl jp)
                 (credentials jp)) s7)"

definition stage_build :: "world \<Rightarrow> DependabotJobParameters \<Rightarrow> state \<Rightarrow> state \<times> (thrown + (Proxy \<times> URL) option)" where
  "stage_build w jp s3 =
     (case proxyBuilder_run w of
        Inl e \<Rightarrow> (build_state w jp s3, Inl e)
      | Inr proxy \<Rightarrow> stage_start w proxy (build_state w jp s3))"

definition pull_state :: "world \<Rightarrow> state \<Rightarrow> state" where
  "pull_state w s2 =
     emit (Pull (PROXY_IMAGE_NAME w))
       (emit EndGroup (emit (StartGroup ''Pulling updater images'') s2))"

definition stage_pull :: "world \<Rightarrow> DependabotJobParameters \<Rightarrow> state \<Rightarrow> state \<times> (thrown + (Proxy \<times> URL) option)" where
  "stage_pull w jp s2 =
     (case ImageService_pull w (PROXY_IMAGE_NAME w) of
        Inl (Error error) \<Rightarrow>
          (case failJob w (apiClient jp)
                  (''Error fetching updater images'' @ error_message error) error Image
                  (pull_state w s2) of
             (s4, Inl e) \<Rightarrow> (s4, Inl e)
           | (s4, Inr u) \<Rightarrow> (s4, Inr None))
      | _ \<Rightarrow> stage_build w jp (pull_state w s2))"

text \<open>
  What the \<^verbatim>\<open>try\<close> block and \<^verbatim>\<open>getDependabotJobParameters\<close> return; neither depends
  on the state (lemmas \<open>snd_fetch_job\<close> and \<open>snd_getDependabotJobParameters\<close>).
\<close>

definition fetch_result ::
  "world \<Rightarrow> JobParameters \<Rightarrow> string \<Rightarrow> string \<Rightarrow> thrown + DependabotJobParameters" where
  "fetch_result w p t c = snd (fetch_job w p t c initial)"

definition params_result :: "world \<Rightarrow> thrown + DependabotJobParameters option" where
  "params_result w = snd (getDependabotJobParameters w initial)"

text \<open>The event with which \<^verbatim>\<open>setFailed\<close> marks the run failed.\<close>

definition setFailed_event :: "world \<Rightarrow> string \<Rightarrow> js_error option \<Rightarrow> state \<Rightarrow> event" where
  "setFailed_event w message error s = last (trace (setFailed w message error s))"

text \<open>
  Events by kind, and \<open>grows K s s'\<close>: the trace of \<open>s'\<close> is the trace of \<open>s\<close> followed by
  events of the kinds \<open>K\<close>.
\<close>

datatype kind =
  Logging | Failure | Fetching | Status | Pulling | Building | Proxying | Filing | Exporting

fun kind_of :: "event \<Rightarrow> kind" where
  "kind_of (Info m) = Logging"
| "kind_of (StartGroup m) = Logging"
| "kind_of EndGroup = Logging"
| "kind_of (SetSecret v) = Logging"
| "kind_of (SaveState k v) = Logging"
| "kind_of (SetFailed m) = Failure"
| "kind_of GetJobDetails = Fetching"
| "kind_of GetCredentials = Fetching"
| "kind_of (ReportJobError t m) = Status"
| "kind_of MarkJobAsProcessed = Status"
| "kind_of (Pull i) = Pulling"
| "kind_of (NewProxyBuilder i c) = Building"
| "kind_of (ProxyBuilderRun j t u cs) = Building"
| "kind_of ContainerStart = Proxying"
| "kind_of ProxyUrl = Proxying"
| "kind_of (MkdirSync p) = Filing"
| "kind_of (WriteFileSync p c e) = Filing"
| "kind_of (ExportVariable k v) = Exporting"

definition grows :: "kind set \<Rightarrow> state \<Rightarrow> state \<Rightarrow> bool" where
  "grows K s s' \<longleftrightarrow> (\<exists>es. trace s' = trace s @ es \<and> (\<forall>e\<in>set es. kind_of e \<in> K))"

text \<open>Whether the fetched job details carry the experiment \<^verbatim>\<open>proxy-cached\<close>.\<close>

definition carries_proxy_cached :: "world \<Rightarrow> bool" where
  "carries_proxy_cached w =
     (case getJobDetails w of
        Inl e \<Rightarrow> False
      | Inr details \<Rightarrow>
          (case experiments details of
             None \<Rightarrow> False
           | Some props \<Rightarrow> ''proxy-cached'' \<in> set (map fst props)))"

text \<open>
  What \<^verbatim>\<open>failJob\<close> and the stages from the pull on return. None depends on the state;
  of the job only the presence of the API client matters.
\<close>

definition fail_result :: "world \<Rightarrow> ApiClient option \<Rightarrow> thrown + unit" where
  "fail_result w client =
     (case client of
        None \<Rightarrow> Inr ()
      | Some c \<Rightarrow>
          (case reportJobError w of
             Inl e \<Rightarrow> Inl e
           | Inr u \<Rightarrow> markJobAsProcessed w))"

definition url_result :: "world \<Rightarrow> Proxy \<Rightarrow> thrown + (Proxy \<times> URL) option" where
  "url_result w proxy =
     (case proxy_url w of
        Inl e \<Rightarrow> Inl e
      | Inr text \<Rightarrow>
          (case new_URL w text of
             Inl e \<Rightarrow> Inl e
           | Inr proxyUrl \<Rightarrow> Inr (Some (proxy, proxyUrl))))"

definition build_result :: "world \<Rightarrow> thrown + (Proxy \<times> URL) option" where
  "build_result w =
     (case proxyBuilder_run w of
        Inl e \<Rightarrow> Inl e
      | Inr proxy \<Rightarrow>
          (case container_start w of
             Inl e \<Rightarrow> Inl e
           | Inr u \<Rightarrow> url_result w proxy))"

definition pull_result :: "world \<Rightarrow> ApiClient option \<Rightarrow> thrown + (Proxy \<times> URL) option" where
  "pull_result w client =
     (case ImageService_pull w (PROXY_IMAGE_NAME w) of
        Inl (Error error) \<Rightarrow>
          (case fail_result w client of Inl e \<Rightarrow> Inl e | Inr u \<Rightarrow> Inr None)
      | _ \<Rightarrow> build_result w)"

text \<open>The proxy and its URL, when the pull does not throw an Error and the proxy comes up.\<close>

definition proxy_outcome :: "world \<Rightarrow> (Proxy \<times> URL) option" where
  "proxy_outcome w =
     (case ImageService_pull w (PROXY_IMAGE_NAME w) of
        Inl (Error error) \<Rightarrow> None
      | _ \<Rightarrow> (case build_result w of Inr (Some pu) \<Rightarrow> Some pu | _ \<Rightarrow> None))"

text \<open>The files and the variables of the richer variant, for a proxy, its URL and its certificate.\<close>

definition published_files :: "world \<Rightarrow> Proxy \<Rightarrow> URL \<Rightarrow> string \<Rightarrow> (string \<times> string \<times> encoding) list" where
  "published_files w proxy proxyUrl certificate =
     [(path_resolve w ''keystore.p12'',
       toPkcs12Der w (Some (generateKeyPair w)) certificate (Some ''changeit'')
         (Some dummy_key_options),
       Binary),
      (path_resolve w ''cert.pem'', cert proxy, Utf8),
      (path_join w (path_join w (homedir w) ''.m2'') ''settings.xml'', settings proxyUrl, Utf8)]"

definition published_variables :: "world \<Rightarrow> Proxy \<Rightarrow> URL \<Rightarrow> (string \<times> string) list" where
  "published_variables w proxy proxyUrl =
     [(''MAVEN_OPTS'',
       JAVA_SSL_OPTS (path_resolve w ''keystore.p12'') @ '' -DproxySet=true ''
       @ JAVA_PROXY_OPTS proxyUrl @ '' '' @ or_else (process_env w ''MAVEN_OPTS'') []),
      (''GRADLE_OPTS'',
       JAVA_SSL_OPTS (path_resolve w ''keystore.p12'') @ '' '' @ JAVA_PROXY_OPTS proxyUrl
       @ '' '' @ or_else (process_env w ''GRADLE_OPTS'') []),
      (''SEMMLE_JAVA_EXTRACTOR_JVM_ARGS'',
       JAVA_SSL_OPTS (path_resolve w ''keystore.p12'') @ '' '' @ JAVA_PROXY_OPTS proxyUrl
       @ '' '' @ or_else (process_env w ''SEMMLE_JAVA_EXTRACTOR_JVM_ARGS'') []),
      (''CODEQL_JAVA_EXTRACTOR_TRUST_STORE_PATH'', path_resolve w ''keystore.p12''),
      (''PROXY_NETWORK_NAME'', networkName proxy),
      (''PROXY_HOST'', hostname proxyUrl),
      (''PROXY_PORT'', port proxyUrl),
      (''PROXY_CA_CERT'', path_resolve w ''cert.pem'')]"

text \<open>
  The same world with other credentials: what \<^verbatim>\<open>getCredentials\<close> answers, and the text of
  \<^verbatim>\<open>DEPENDABOT_CREDENTIALS\<close> in the environment.
\<close>

definition with_credentials :: "world \<Rightarrow> (thrown + Credential list) \<Rightarrow> string option \<Rightarrow> world" where
  "with_credentials w fetched env_text =
     w\<lparr>getCredentials := fetched,
       process_env := (process_env w)(''DEPENDABOT_CREDENTIALS'' := env_text)\<rparr>"

text \<open>The files that \<open>publish\<close> writes, and whether a run gets as far as the pull.\<close>

definition publish_files :: "world \<Rightarrow> Proxy \<Rightarrow> URL \<Rightarrow> (string \<times> string \<times> encoding) list" where
  "publish_files w proxy proxyUrl = files_written (trace (fst (publish w proxy proxyUrl initial)))"


text \<open>The same stages for the minimal variant; \<open>job_or_env\<close>, \<open>pull_state\<close> and
  \<open>stage_url\<close> hold no \<^verbatim>\<open>botSay\<close> and serve both.\<close>

definition begin_state_minimal :: "world \<Rightarrow> state \<Rightarrow> state" where
  "begin_state_minimal w s = emit EndGroup (emit (StartGroup ''Pstart'')
                 (botSay_minimal ''starting update'' (botSay_minimal (inputs_json w) s)))"

definition stage_start_minimal :: "world \<Rightarrow> Proxy \<Rightarrow> state \<Rightarrow> state \<times> (thrown + (Proxy \<times> URL) option)" where
  "stage_start_minimal w proxy s8 =
     (let s9 = emit ContainerStart (botSay_minimal ''start proxy'' s8) in
      case container_start w of
        Inl e \<Rightarrow> (s9, Inl e)
      | Inr u \<Rightarrow> stage_url w proxy s9)"

definition build_state_minimal :: "world \<Rightarrow> DependabotJobParameters \<Rightarrow> state \<Rightarrow> state" where
  "build_state_minimal w jp s3 =
     (let s4 = emit EndGroup s3;
          s5 = botSay_minimal ''initialize proxy builder'' s4;
          s6 = emit (NewProxyBuilder (PROXY_IMAGE_NAME w) (cachedMode jp)) s5;
          s7 = botSay_minimal ''building proxy'' s6
      in emit (ProxyBuilderRun (jobId s7) (jobToken jp) (dependabotApiUrl jp)
                 (credentials jp)) s7)"

definition stage_build_minimal :: "world \<Rightarrow> DependabotJobParameters \<Rightarrow> state \<Rightarrow> state \<times> (thrown + (Proxy \<times> URL) option)" where
  "stage_build_minimal w jp s3 =
     (case proxyBuilder_run w of
        Inl e \<Rightarrow> (build_state_minimal w jp s3, Inl e)
      | Inr proxy \<Rightarrow> stage_start_minimal w proxy (build_state_minimal w jp s3))"

definition stage_pull_minimal :: "world \<Rightarrow> DependabotJobParameters \<Rightarrow> state \<Rightarrow> state \<times> (thrown + (Proxy \<times> URL) option)" where
  "stage_pull_minimal w jp s2 =
     (case ImageService_pull w (PROXY_IMAGE_NAME w) of
        Inl (Error error) \<Rightarrow>
          (case failJob_minimal w (apiClient jp)
                  (''Error fetching updater images'' @ error_message error) error Image
                  (pull_state w s2) of
             (s4, Inl e) \<Rightarrow> (s4, Inl e)
           | (s4, Inr u) \<Rightarrow> (s4, Inr None))
      | _ \<Rightarrow> stage_build_minimal w jp (pull_state w s2))"


text \<open>
  The log lines of the two variants differ in the bytes that \<^verbatim>\<open>botSay\<close> puts in front:
  \<open>relabel\<close> turns an event of the richer variant into the event of the minimal one.
\<close>

fun relabel :: "event \<Rightarrow> event" where
  "relabel (Info m) = Info (if take 4 m = robot then robot_minimal @ drop 4 m else m)"
| "relabel e = e"

definition relabelled :: "state \<Rightarrow> state" where
  "relabelled s = s\<lparr>trace := map relabel (trace s)\<rparr>"

section \<open>Concrete worlds\<close>

text \<open>
  A world in which every collaborator answers: job 42 with both tokens, job details
  without experiments, one credential, a proxy at \<^verbatim>\<open>http://172.17.0.2:1080\<close>, and
  \<^verbatim>\<open>MAVEN_OPTS\<close> already set in the environment. The other worlds differ from it in one
  answer.
\<close>

definition job42 :: JobParameters where
  "job42 = \<lparr>p_jobId = 42, p_jobToken = ''job-token'', p_credentialsToken = ''cred-token'',
            p_dependabotApiUrl = ''https://api.example''\<rparr>"

definition npm_credential :: Credential where
  "npm_credential = Credential [(''type'', ''npm_registry''), (''token'', ''s3cr3t'')]"

definition world_ok :: world where
  "world_ok =
     \<lparr>inputs_json = ''{}'',
      getJobParameters = Some job42,
      process_env = (\<lambda>k. if k = ''MAVEN_OPTS'' then Some ''-Xmx1g'' else None),
      getJobDetails = Inr \<lparr>experiments = None\<rparr>,
      getCredentials = Inr [npm_credential],
      reportJobError = Inr (),
      markJobAsProcessed = Inr (),
      JSON_parse = (\<lambda>t. Inl (Error (JsError ''SyntaxError'' ''Unexpected token''))),
      number_toString = (\<lambda>n. if n = 42 then ''42'' else ''0''),
      PROXY_IMAGE_NAME = ''proxy-image'',
      ImageService_pull = (\<lambda>i. Inr ()),
      proxyBuilder_run = Inr \<lparr>cert = ''PEM'', networkName = ''job-42-net'', container_id = ''c1''\<rparr>,
      container_start = Inr (),
      proxy_url = Inr ''http://172.17.0.2:1080'',
      new_URL = (\<lambda>t. if t = ''http://172.17.0.2:1080''
                        then Inr \<lparr>hostname = ''172.17.0.2'', port = ''1080''\<rparr>
                        else Inl (Error (JsError ''TypeError'' ''Invalid URL''))),
      generateKeyPair = ''KEY'',
      certificateFromPem = (\<lambda>pem. Inr pem),
      toPkcs12Der = (\<lambda>k c p opts. (case k of None \<Rightarrow> [] | Some v \<Rightarrow> v) @ ''/'' @ c @ ''/''
                                   @ (case p of None \<Rightarrow> [] | Some v \<Rightarrow> v)),
      path_resolve = (\<lambda>p. ''/work/'' @ p),
      path_join = (\<lambda>a b. a @ ''/'' @ b),
      homedir = ''/home/runner'',
      fs_error = (\<lambda>p. None)\<rparr>"

definition job42_parameters :: DependabotJobParameters where
  "job42_parameters =
     \<lparr>jobToken = ''job-token'', dependabotApiUrl = ''https://api.example'', cachedMode = False,
      credentials = [npm_credential],
      apiClient = Some (ApiClient job42 ''job-token'' ''cred-token'')\<rparr>"

definition network_conflict :: js_error where
  "network_conflict = JsError ''Error'' ''network conflict''"

definition world_build_fails :: world where
  "world_build_fails = world_ok\<lparr>proxyBuilder_run := Inl (Error network_conflict)\<rparr>"

definition registry_unreachable :: js_error where
  "registry_unreachable = JsError ''Error'' ''registry unreachable''"

definition world_pull_fails :: world where
  "world_pull_fails = world_ok\<lparr>ImageService_pull := (\<lambda>i. Inl (Error registry_unreachable))\<rparr>"

definition unauthorized :: js_error where
  "unauthorized = JsError ''Error'' ''Unexpected status code: 401''"

definition world_unauthorized :: world where
  "world_unauthorized = world_ok\<lparr>getJobDetails := Inl (Error unauthorized)\<rparr>"

definition world_no_job :: world where
  "world_no_job = world_ok\<lparr>getJobParameters := None\<rparr>"

definition world_pull_rejects :: world where
  "world_pull_rejects = world_ok\<lparr>ImageService_pull := (\<lambda>i. Inl (NonError ''timeout''))\<rparr>"

definition world_cached :: world where
  "world_cached = world_ok\<lparr>getJobDetails := Inr \<lparr>experiments = Some [(''proxy-cached'', True)]\<rparr>\<rparr>"

text \<open>The value of \<^verbatim>\<open>MAVEN_OPTS\<close> that the minimal variant exports in \<open>world_ok\<close>.\<close>

definition minimal_MAVEN_OPTS :: string where
  "minimal_MAVEN_OPTS =
     ''-Djavax.net.ssl.trustStore=keystore.p12 -Djavax.net.ssl.trustStoreType=PKCS12''
     @ '' -DproxySet=true ''
     @ ''-Dhttp.proxyHost=172.17.0.2 -Dhttp.proxyPort=1080''
     @ '' -Dhttps.proxyHost=172.17.0.2 -Dhttps.proxyPort=1080''
     @ '' -Xmx1g''"




section \<open>Basic facts\<close>

lemma trace_emit [simp]: "trace (emit e s) = trace s @ [e]"
  by (simp add: emit_def)

lemma jobId_emit [simp]: "jobId (emit e s) = jobId s"
  by (simp add: emit_def)

lemma trace_botSay [simp]: "trace (botSay m s) = trace s @ [Info (robot @ '' ~ '' @ m @ '' ~'')]"
  by (simp add: botSay_def)

lemma jobId_botSay [simp]: "jobId (botSay m s) = jobId s"
  by (simp add: botSay_def)

lemma trace_setFailed [simp]: "trace (setFailed w m e s) = trace s @ [setFailed_event w m e s]"
  by (simp add: setFailed_event_def setFailed_def Let_def)

lemma jobId_setFailed [simp]: "jobId (setFailed w m e s) = jobId s"
  by (simp add: setFailed_def Let_def)

lemma setFailed_event_SetFailed: "\<exists>m'. setFailed_event w m e s = SetFailed m'"
  by (simp add: setFailed_event_def setFailed_def Let_def)

lemma is_SetFailed_setFailed_event [simp]: "is_SetFailed (setFailed_event w m e s)"
  using setFailed_event_SetFailed [of w m e s] by auto

lemma kind_setFailed_event [simp]: "kind_of (setFailed_event w m e s) = Failure"
  using setFailed_event_SetFailed [of w m e s] by auto

lemma status_setFailed_event [simp]: "\<not> is_status_call (setFailed_event w m e s)"
  using setFailed_event_SetFailed [of w m e s] by auto

lemma is_status_call_kind: "is_status_call e \<longleftrightarrow> kind_of e = Status"
  by (cases e) simp_all

lemma is_SetFailed_kind: "is_SetFailed e \<longleftrightarrow> kind_of e = Failure"
  by (cases e) simp_all


lemma status_calls_Nil [simp]: "status_calls [] = []"
  by (simp add: status_calls_def)

lemma status_calls_Cons [simp]:
  "status_calls (e # es) = (if is_status_call e then e # status_calls es else status_calls es)"
  by (simp add: status_calls_def)

lemma status_calls_append [simp]: "status_calls (xs @ ys) = status_calls xs @ status_calls ys"
  by (simp add: status_calls_def)

lemma files_written_append [simp]: "files_written (xs @ ys) = files_written xs @ files_written ys"
  by (induction xs rule: files_written.induct) simp_all

lemma exported_append [simp]: "exported (xs @ ys) = exported xs @ exported ys"
  by (induction xs rule: exported.induct) simp_all

lemma files_written_kind: "\<forall>e\<in>set es. kind_of e \<noteq> Filing \<Longrightarrow> files_written es = []"
  by (induction es rule: files_written.induct) simp_all

lemma exported_kind: "\<forall>e\<in>set es. kind_of e \<noteq> Exporting \<Longrightarrow> exported es = []"
  by (induction es rule: exported.induct) simp_all

subsection \<open>Growth of the trace\<close>

lemma grows_refl [simp]: "grows K s s"
  by (simp add: grows_def)

lemma grows_trans: "grows K s s' \<Longrightarrow> grows K s' s'' \<Longrightarrow> grows K s s''"
  by (auto simp: grows_def)

lemma grows_mono: "grows K s s' \<Longrightarrow> K \<subseteq> K' \<Longrightarrow> grows K' s s'"
  by (auto simp: grows_def)

lemma grows_emit: "grows K s s' \<Longrightarrow> kind_of e \<in> K \<Longrightarrow> grows K s (emit e s')"
  by (auto simp: grows_def)

lemma grows_botSay: "grows K s s' \<Longrightarrow> Logging \<in> K \<Longrightarrow> grows K s (botSay m s')"
  by (auto simp: grows_def)

lemma grows_setFailed: "grows K s s' \<Longrightarrow> Failure \<in> K \<Longrightarrow> grows K s (setFailed w m e s')"
  by (auto simp: grows_def)

lemma grows_jobId: "grows K s s' \<Longrightarrow> grows K s (s'\<lparr>jobId := j\<rparr>)"
  by (simp add: grows_def)

lemma grows_prefix: "grows K s s' \<Longrightarrow> prefix (trace s) (trace s')"
  by (auto simp: grows_def)

lemma grows_set: "grows K s s' \<Longrightarrow> set (trace s) \<subseteq> set (trace s')"
  by (auto simp: grows_def)

lemma grows_old: "grows K s s' \<Longrightarrow> e \<in> set (trace s') \<Longrightarrow> kind_of e \<notin> K \<Longrightarrow> e \<in> set (trace s)"
  by (auto simp: grows_def)

lemma grows_filter:
  assumes "grows K s s'" and "\<And>e. P e \<Longrightarrow> kind_of e \<notin> K"
  shows "filter P (trace s') = filter P (trace s)"
proof -
  from assms(1) obtain es where es: "trace s' = trace s @ es" "(\<forall>e\<in>set es. kind_of e \<in> K)"
    by (auto simp: grows_def)
  have "filter P es = []"
    using es(2) assms(2) by (auto simp: filter_empty_conv)
  with es(1) show ?thesis by simp
qed

lemma grows_status: "grows K s s' \<Longrightarrow> Status \<notin> K \<Longrightarrow> status_calls (trace s') = status_calls (trace s)"
  unfolding status_calls_def by (rule grows_filter) (auto simp: is_status_call_kind)

lemma grows_files: "grows K s s' \<Longrightarrow> Filing \<notin> K \<Longrightarrow> files_written (trace s') = files_written (trace s)"
  unfolding grows_def by (metis append_Nil2 files_written_append files_written_kind)

lemma grows_exported: "grows K s s' \<Longrightarrow> Exporting \<notin> K \<Longrightarrow> exported (trace s') = exported (trace s)"
  unfolding grows_def by (metis append_Nil2 exported_append exported_kind)


subsection \<open>The stages\<close>

lemma run_until_proxyUrl_staged:
  "run_until_proxyUrl w s =
     (case getDependabotJobParameters w (begin_state w s) of
        (s2, Inl e) \<Rightarrow> (s2, Inl e)
      | (s2, Inr jobParameters) \<Rightarrow>
          (case job_or_env w jobParameters of
             Inl e \<Rightarrow> (s2, Inl e)
           | Inr jp \<Rightarrow> stage_pull w jp s2))"
  unfolding run_until_proxyUrl_def stage_pull_def stage_build_def stage_start_def
    stage_url_def job_or_env_def begin_state_def pull_state_def build_state_def Let_def
  by (rule refl)

lemma grows_begin_state: "grows K s s' \<Longrightarrow> Logging \<in> K \<Longrightarrow> grows K s (begin_state w s')"
  by (simp add: begin_state_def grows_emit grows_botSay)

lemma jobId_begin_state [simp]: "jobId (begin_state w s) = jobId s"
  by (simp add: begin_state_def)

lemma grows_fetch_job:
  "grows K s s' \<Longrightarrow> Logging \<in> K \<Longrightarrow> Fetching \<in> K \<Longrightarrow> grows K s (fst (fetch_job w p t c s'))"
  by (simp add: fetch_job_def Let_def grows_emit split: sum.splits)

lemma jobId_fetch_job [simp]: "jobId (fst (fetch_job w p t c s)) = jobId s"
  by (simp add: fetch_job_def Let_def split: sum.splits)

lemma snd_fetch_job [simp]: "snd (fetch_job w p t c s) = fetch_result w p t c"
  by (simp add: fetch_result_def fetch_job_def Let_def split: sum.splits)

lemma snd_getDependabotJobParameters [simp]:
  "snd (getDependabotJobParameters w s) = params_result w"
  by (simp add: params_result_def getDependabotJobParameters_def Let_def case_prod_unfold
      split: option.splits sum.splits thrown.splits)

lemma grows_getDependabotJobParameters:
  "grows K s s' \<Longrightarrow> Logging \<in> K \<Longrightarrow> Fetching \<in> K \<Longrightarrow> Failure \<in> K
   \<Longrightarrow> grows K s (fst (getDependabotJobParameters w s'))"
  by (simp add: getDependabotJobParameters_def Let_def case_prod_unfold
        grows_emit grows_botSay grows_setFailed grows_fetch_job grows_jobId
      split: option.splits sum.splits thrown.splits)

lemma snd_failJob [simp]: "snd (failJob w c m e t s) = fail_result w c"
  by (simp add: failJob_def fail_result_def Let_def split: option.splits sum.splits)

lemma grows_failJob:
  "grows K s s' \<Longrightarrow> Logging \<in> K \<Longrightarrow> Status \<in> K \<Longrightarrow> Failure \<in> K
   \<Longrightarrow> grows K s (fst (failJob w c m e t s'))"
  by (simp add: failJob_def Let_def grows_emit grows_botSay grows_setFailed
      split: option.splits sum.splits)

lemma grows_failJob_None:
  "grows K s s' \<Longrightarrow> Logging \<in> K \<Longrightarrow> Failure \<in> K
   \<Longrightarrow> grows K s (fst (failJob w None m e t s'))"
  by (simp add: failJob_def Let_def grows_emit grows_botSay grows_setFailed)

lemma grows_stage_url:
  "grows K s s' \<Longrightarrow> Logging \<in> K \<Longrightarrow> Proxying \<in> K \<Longrightarrow> grows K s (fst (stage_url w p s'))"
  by (simp add: stage_url_def Let_def grows_emit split: sum.splits)

lemma grows_stage_start:
  "grows K s s' \<Longrightarrow> Logging \<in> K \<Longrightarrow> Proxying \<in> K \<Longrightarrow> grows K s (fst (stage_start w p s'))"
  by (simp add: stage_start_def Let_def grows_emit grows_botSay grows_stage_url split: sum.splits)

lemma grows_build_state:
  "grows K s s' \<Longrightarrow> Logging \<in> K \<Longrightarrow> Building \<in> K \<Longrightarrow> grows K s (build_state w jp s')"
  by (simp add: build_state_def Let_def grows_emit grows_botSay)

lemma grows_stage_build:
  "grows K s s' \<Longrightarrow> Logging \<in> K \<Longrightarrow> Building \<in> K \<Longrightarrow> Proxying \<in> K
   \<Longrightarrow> grows K s (fst (stage_build w jp s'))"
  by (simp add: stage_build_def grows_build_state grows_stage_start split: sum.splits)

lemma grows_pull_state:
  "grows K s s' \<Longrightarrow> Logging \<in> K \<Longrightarrow> Pulling \<in> K \<Longrightarrow> grows K s (pull_state w s')"
  by (simp add: pull_state_def grows_emit)

lemma grows_publish:
  "grows K s s' \<Longrightarrow> Filing \<in> K \<Longrightarrow> Exporting \<in> K \<Longrightarrow> grows K s (fst (publish w p u s'))"
  by (simp add: publish_def writeFileSync_def mkdirSync_def export_variables_def Let_def
        grows_emit split: option.splits sum.splits)

lemma grows_publish_minimal:
  "grows K s s' \<Longrightarrow> Filing \<in> K \<Longrightarrow> Exporting \<in> K \<Longrightarrow> grows K s (fst (publish_minimal w p u s'))"
  by (simp add: publish_minimal_def writeFileSync_def Let_def
        grows_emit split: option.splits sum.splits)


subsection \<open>The shape of a run\<close>

lemma run_until_proxyUrl_split:
  fixes w s
  defines "g \<equiv> getDependabotJobParameters w (begin_state w s)"
  shows "(\<exists>e. run_until_proxyUrl w s = (fst g, Inl e)
            \<and> (snd g = Inl e \<or> (snd g = Inr None \<and> getCredentialsFromEnv w = Inl e)))
       \<or> (\<exists>jobParameters jp. snd g = Inr jobParameters \<and> job_or_env w jobParameters = Inr jp
            \<and> run_until_proxyUrl w s = stage_pull w jp (fst g))"
proof (cases g)
  case (Pair s2 r)
  then have g: "getDependabotJobParameters w (begin_state w s) = (s2, r)"
    by (simp add: g_def)
  show ?thesis
  proof (cases r)
    case (Inl e)
    with g Pair show ?thesis by (simp add: run_until_proxyUrl_staged)
  next
    case (Inr jobParameters)
    show ?thesis
    proof (cases "job_or_env w jobParameters")
      case (Inl e)
      with g Pair Inr show ?thesis
        by (cases jobParameters) (simp_all add: run_until_proxyUrl_staged job_or_env_def)
    next
      case (Inr jp)
      with g Pair \<open>r = Inr jobParameters\<close> show ?thesis
        by (simp add: run_until_proxyUrl_staged)
    qed
  qed
qed

lemma run_split:
  "run w s =
     (case snd (run_until_proxyUrl w s) of
        Inl e \<Rightarrow> (fst (run_until_proxyUrl w s), Inl e)
      | Inr None \<Rightarrow> (fst (run_until_proxyUrl w s), Inr ())
      | Inr (Some pu) \<Rightarrow> publish w (fst pu) (snd pu) (fst (run_until_proxyUrl w s)))"
  by (cases "run_until_proxyUrl w s") (simp add: run_def split: sum.splits option.splits prod.splits)

subsection \<open>Calls to the job-control service\<close>

lemma status_begin_state [simp]: "status_calls (trace (begin_state w s)) = status_calls (trace s)"
  by (rule grows_status [where K = "{Logging}"]) (simp_all add: grows_begin_state)

lemma status_getDependabotJobParameters [simp]:
  "status_calls (trace (fst (getDependabotJobParameters w s))) = status_calls (trace s)"
  by (rule grows_status [where K = "{Logging, Fetching, Failure}"])
    (simp_all add: grows_getDependabotJobParameters)

lemma status_failJob:
  "status_calls (trace (fst (failJob w c m e t s))) =
     status_calls (trace s)
     @ (case c of
          None \<Rightarrow> []
        | Some a \<Rightarrow>
            (case reportJobError w of
               Inl x \<Rightarrow> [ReportJobError t (error_message e)]
             | Inr u \<Rightarrow> [ReportJobError t (error_message e), MarkJobAsProcessed]))"
  by (simp add: failJob_def Let_def split: option.splits sum.splits)

lemma status_pull_state [simp]: "status_calls (trace (pull_state w s)) = status_calls (trace s)"
  by (simp add: pull_state_def)

lemma status_stage_build [simp]:
  "status_calls (trace (fst (stage_build w jp s))) = status_calls (trace s)"
  by (rule grows_status [where K = "{Logging, Building, Proxying}"])
    (simp_all add: grows_stage_build)

lemma status_stage_pull:
  "status_calls (trace (fst (stage_pull w jp s))) =
     status_calls (trace s)
     @ (case ImageService_pull w (PROXY_IMAGE_NAME w) of
          Inl (Error error) \<Rightarrow>
            (case apiClient jp of
               None \<Rightarrow> []
             | Some c \<Rightarrow>
                 (case reportJobError w of
                    Inl x \<Rightarrow> [ReportJobError Image (error_message error)]
                  | Inr u \<Rightarrow> [ReportJobError Image (error_message error), MarkJobAsProcessed]))
        | _ \<Rightarrow> [])"
  by (simp add: stage_pull_def status_failJob case_prod_unfold split: sum.splits thrown.splits)

lemma status_publish [simp]:
  "status_calls (trace (fst (publish w p u s))) = status_calls (trace s)"
  by (rule grows_status [where K = "{Filing, Exporting}"]) (simp_all add: grows_publish)


lemma status_run:
  "status_calls (trace (fst (run w s))) = status_calls (trace (fst (run_until_proxyUrl w s)))"
  by (simp add: run_split split: sum.splits option.splits)



section \<open>Evaluation on concrete worlds\<close>

lemmas world_defs =
  world_ok_def world_build_fails_def world_pull_fails_def world_unauthorized_def
  world_no_job_def world_pull_rejects_def world_cached_def job42_def npm_credential_def job42_parameters_def
  network_conflict_def registry_unreachable_def unauthorized_def

lemmas params_defs =
  getDependabotJobParameters_def fetch_job_def has_proxy_cached_def or_else_def
  getCredentialsFromEnv_def Let_def

lemma params_world_ok:
  "params_result world_ok = Inr (Some job42_parameters)"
  by (simp add: params_result_def params_defs world_defs)

lemma params_world_build_fails:
  "params_result world_build_fails = Inr (Some job42_parameters)"
  by (simp add: params_result_def params_defs world_defs)


lemma params_world_unauthorized:
  "params_result world_unauthorized = Inr None"
  by (simp add: params_result_def params_defs world_defs)

lemma params_world_no_job:
  "params_result world_no_job = Inr None"
  by (simp add: params_result_def params_defs world_defs)

lemmas run_defs =
  run_def run_minimal_def run_until_proxyUrl_def run_until_proxyUrl_minimal_def
  getDependabotJobParameters_minimal_def failJob_minimal_def botSay_minimal_def
  publish_def publish_minimal_def
  writeFileSync_def mkdirSync_def export_variables_def failJob_def setFailed_def
  truthy_jobId_def dependabotJobHelp_def dependabotJobUrl_def env_item_def item_toString_def
  Error_toString_def botSay_def emit_def initial_def

section \<open>The stages of a run\<close>

lemma snd_stage_url [simp]: "snd (stage_url w proxy s) = url_result w proxy"
  by (simp add: stage_url_def url_result_def Let_def split: sum.splits)

lemma snd_stage_start [simp]:
  "snd (stage_start w proxy s) =
     (case container_start w of Inl e \<Rightarrow> Inl e | Inr u \<Rightarrow> url_result w proxy)"
  by (simp add: stage_start_def Let_def split: sum.splits)

lemma snd_stage_build [simp]: "snd (stage_build w jp s) = build_result w"
  by (simp add: stage_build_def build_result_def split: sum.splits)

lemma snd_stage_pull [simp]: "snd (stage_pull w jp s) = pull_result w (apiClient jp)"
  by (simp add: stage_pull_def pull_result_def case_prod_unfold split: sum.splits thrown.splits)

lemma build_result_Some: "build_result w \<noteq> Inr None"
  by (simp add: build_result_def url_result_def split: sum.splits)

lemma build_result_proxy:
  "build_result w = Inr (Some (proxy, proxyUrl)) \<Longrightarrow>
     proxyBuilder_run w = Inr proxy \<and> container_start w = Inr ()
     \<and> (\<exists>text. proxy_url w = Inr text \<and> new_URL w text = Inr proxyUrl)"
  by (auto simp: build_result_def url_result_def split: sum.splits)

lemma trace_build_state:
  "trace (build_state w jp s) =
     trace s @ [EndGroup, Info (robot @ '' ~ initialize proxy builder ~''),
                NewProxyBuilder (PROXY_IMAGE_NAME w) (cachedMode jp),
                Info (robot @ '' ~ building proxy ~''),
                ProxyBuilderRun (jobId s) (jobToken jp) (dependabotApiUrl jp) (credentials jp)]"
  by (simp add: build_state_def Let_def)

lemma grows_after_build:
  "grows {Logging, Proxying} (build_state w jp s) (fst (stage_build w jp s))"
  by (simp add: stage_build_def grows_stage_start split: sum.splits)

lemma trace_stage_url:
  "trace (fst (stage_url w proxy s)) =
     trace s @ [SaveState ''PROXY_CONTAINER_ID'' (container_id proxy), ProxyUrl]"
  by (simp add: stage_url_def Let_def split: sum.splits)

lemma trace_stage_start:
  "trace (fst (stage_start w proxy s)) =
     trace s @ [Info (robot @ '' ~ start proxy ~''), ContainerStart]
     @ (case container_start w of
          Inl e \<Rightarrow> []
        | Inr u \<Rightarrow> [SaveState ''PROXY_CONTAINER_ID'' (container_id proxy), ProxyUrl])"
  by (simp add: stage_start_def Let_def trace_stage_url split: sum.splits)

lemma trace_stage_build:
  "trace (fst (stage_build w jp s)) =
     trace (build_state w jp s)
     @ (case proxyBuilder_run w of
          Inl e \<Rightarrow> []
        | Inr proxy \<Rightarrow>
            [Info (robot @ '' ~ start proxy ~''), ContainerStart]
            @ (case container_start w of
                 Inl e \<Rightarrow> []
               | Inr u \<Rightarrow> [SaveState ''PROXY_CONTAINER_ID'' (container_id proxy), ProxyUrl]))"
  by (simp add: stage_build_def trace_stage_start split: sum.splits)

lemma trace_publish:
  "trace (fst (publish w proxy proxyUrl s))
     = trace s @ trace (fst (publish w proxy proxyUrl initial))"
  by (simp add: publish_def writeFileSync_def mkdirSync_def export_variables_def Let_def
        initial_def
      split: option.splits sum.splits)

lemma snd_publish:
  "snd (publish w proxy proxyUrl s) = snd (publish w proxy proxyUrl initial)"
  by (simp add: publish_def writeFileSync_def mkdirSync_def export_variables_def Let_def
      split: option.splits sum.splits)

lemma grows_stage_pull:
  "grows {Logging, Status, Failure, Building, Proxying} (pull_state w s) (fst (stage_pull w jp s))"
  by (simp add: stage_pull_def grows_failJob grows_stage_build case_prod_unfold
      split: sum.splits thrown.splits)

lemma Pull_stage_pull: "Pull (PROXY_IMAGE_NAME w) \<in> set (trace (fst (stage_pull w jp s)))"
  using grows_set [OF grows_stage_pull [of w s jp]] by (auto simp: pull_state_def)

lemma grows_run_until_proxyUrl:
  "grows {Logging, Fetching, Failure, Pulling, Status, Building, Proxying} s (fst (run_until_proxyUrl w s))"
proof -
  let ?K = "{Logging, Fetching, Failure, Pulling, Status, Building, Proxying}"
  let ?s2 = "fst (getDependabotJobParameters w (begin_state w s))"
  have s2: "grows ?K s ?s2"
    by (simp add: grows_getDependabotJobParameters grows_begin_state)
  have "grows ?K s (fst (stage_pull w jp ?s2))" for jp
  proof -
    have "grows ?K s (pull_state w ?s2)"
      using s2 by (simp add: grows_pull_state)
    moreover have "grows ?K (pull_state w ?s2) (fst (stage_pull w jp ?s2))"
      by (rule grows_mono [OF grows_stage_pull]) simp
    ultimately show ?thesis by (rule grows_trans)
  qed
  with s2 show ?thesis
    using run_until_proxyUrl_split [of w s] by auto
qed

lemma grows_after_params:
  "grows {Logging, Pulling, Status, Failure, Building, Proxying}
     (fst (getDependabotJobParameters w (begin_state w s))) (fst (run_until_proxyUrl w s))"
proof -
  let ?K = "{Logging, Pulling, Status, Failure, Building, Proxying}"
  let ?s2 = "fst (getDependabotJobParameters w (begin_state w s))"
  have "grows ?K ?s2 (fst (stage_pull w jp ?s2))" for jp
  proof -
    have "grows ?K ?s2 (pull_state w ?s2)"
      by (simp add: grows_pull_state)
    moreover have "grows ?K (pull_state w ?s2) (fst (stage_pull w jp ?s2))"
      by (rule grows_mono [OF grows_stage_pull]) simp
    ultimately show ?thesis by (rule grows_trans)
  qed
  then show ?thesis
    using run_until_proxyUrl_split [of w s] by auto
qed

lemma grows_run: "grows {Filing, Exporting} (fst (run_until_proxyUrl w s)) (fst (run w s))"
  by (simp add: run_split grows_publish split: sum.splits option.splits)

lemma getCredentialsFromEnv_apiClient:
  "getCredentialsFromEnv w = Inr jp \<Longrightarrow>
     apiClient jp = None \<and> cachedMode jp \<and> jobToken jp = [] \<and> dependabotApiUrl jp = []"
  by (auto simp: getCredentialsFromEnv_def Let_def split: sum.splits if_splits)

lemma Pull_begin:
  "Pull i \<notin> set (trace (fst (getDependabotJobParameters w (begin_state w initial))))"
proof -
  have "grows {Logging, Fetching, Failure} initial
          (fst (getDependabotJobParameters w (begin_state w initial)))"
    by (simp add: grows_getDependabotJobParameters grows_begin_state)
  then show ?thesis
    using grows_old [of "{Logging, Fetching, Failure}" initial _ "Pull i"]
    by (auto simp: initial_def)
qed

lemma grows_extension:
  assumes "grows K s s'"
  shows "\<exists>post. trace s' = trace s @ post \<and> (\<forall>e\<in>set post. kind_of e \<in> K)"
  using assms by (simp add: grows_def)


section \<open>Failures\<close>

subsection \<open>What \<^verbatim>\<open>getDependabotJobParameters\<close> returns\<close>








text \<open>
  C1. Credentials are fetched (the API client is defined), the image is pulled, and
  \<^verbatim>\<open>proxyBuilder.run\<close> throws an Error: the promise of \<^verbatim>\<open>run\<close> is rejected with that
  Error, and neither \<^verbatim>\<open>reportJobError\<close> nor \<^verbatim>\<open>markJobAsProcessed\<close> has been called.
\<close>

theorem proxy_build_error_not_reported:
  "snd (getDependabotJobParameters world_build_fails initial) = Inr (Some job42_parameters)
   \<and> apiClient job42_parameters = Some (ApiClient job42 ''job-token'' ''cred-token'')
   \<and> ImageService_pull world_build_fails (PROXY_IMAGE_NAME world_build_fails) = Inr ()
   \<and> proxyBuilder_run world_build_fails = Inl (Error network_conflict)
   \<and> snd (run world_build_fails initial) = Inl (Error network_conflict)
   \<and> status_calls (trace (fst (run world_build_fails initial))) = []"
proof -
  have "snd (run world_build_fails initial) = Inl (Error network_conflict)"
    by (simp add: run_defs params_defs world_defs)
  moreover have "status_calls (trace (fst (run world_build_fails initial))) = []"
    by (simp add: run_defs params_defs world_defs)
  ultimately show ?thesis
    using params_world_build_fails by simp (simp add: world_defs)
qed


subsection \<open>Failure of the fetch\<close>

lemma fetch_error_result:
  assumes "getJobDetails w = Inl (Error error)
           \<or> (\<exists>details. getJobDetails w = Inr details \<and> getCredentials w = Inl (Error error))"
  shows "fetch_result w p t c = Inl (Error error)"
  using assms by (auto simp: fetch_result_def fetch_job_def Let_def)

lemma fetch_error_params:
  assumes "getJobParameters w = Some params"
      and "or_else (process_env w ''GITHUB_DEPENDABOT_JOB_TOKEN'') (p_jobToken params) \<noteq> []"
      and "or_else (process_env w ''GITHUB_DEPENDABOT_CRED_TOKEN'') (p_credentialsToken params) \<noteq> []"
      and "getJobDetails w = Inl (Error error)
           \<or> (\<exists>details. getJobDetails w = Inr details \<and> getCredentials w = Inl (Error error))"
  shows "params_result w = Inr None"
    and "list_ex is_SetFailed (trace (fst (getDependabotJobParameters w s)))"
  using assms(1-3) fetch_error_result [OF assms(4)]
  by (simp_all add: params_result_def getDependabotJobParameters_def Let_def case_prod_unfold)

lemma fetch_attempted_jobId:
  assumes "getJobParameters w = Some params"
      and "or_else (process_env w ''GITHUB_DEPENDABOT_JOB_TOKEN'') (p_jobToken params) \<noteq> []"
      and "or_else (process_env w ''GITHUB_DEPENDABOT_CRED_TOKEN'') (p_credentialsToken params) \<noteq> []"
  shows "jobId (fst (getDependabotJobParameters w s)) = Some (p_jobId params)"
  using assms
  by (simp add: getDependabotJobParameters_def Let_def case_prod_unfold
      split: sum.splits thrown.splits)

lemma failJob_None:
  "\<exists>m'. failJob w None m e t s =
     (s\<lparr>trace := trace s
          @ [SetFailed m', Info (robot @ '' ~ finished: error reported to Dependabot ~'')]\<rparr>,
      Inr ())"
proof -
  obtain m' where "setFailed_event w m (Some e) s = SetFailed m'"
    using setFailed_event_SetFailed by blast
  then have "trace (fst (failJob w None m e t s))
      = trace s @ [SetFailed m', Info (robot @ '' ~ finished: error reported to Dependabot ~'')]"
    by (simp add: failJob_def)
  moreover have "jobId (fst (failJob w None m e t s)) = jobId s"
    by (simp add: failJob_def)
  ultimately have "fst (failJob w None m e t s) = s\<lparr>trace := trace s
          @ [SetFailed m', Info (robot @ '' ~ finished: error reported to Dependabot ~'')]\<rparr>"
    by (cases s, cases "fst (failJob w None m e t s)") simp
  moreover have "snd (failJob w None m e t s) = Inr ()"
    by (simp add: fail_result_def)
  ultimately show ?thesis
    by (metis prod.collapse)
qed

text \<open>
  C2, as the code has it. When the fetch is attempted (the job parameters exist and both
  tokens are set) and \<^verbatim>\<open>getJobDetails\<close> or \<^verbatim>\<open>getCredentials\<close> throws an Error, no call
  to \<^verbatim>\<open>reportJobError\<close> or \<^verbatim>\<open>markJobAsProcessed\<close> is made in the whole run and the run is
  marked failed. But the run goes on with what \<^verbatim>\<open>getCredentialsFromEnv\<close> returns. Either
  the credentials of the environment fail to parse: the promise is rejected and nothing is
  pulled. Or they parse, to parameters without API client, in cached mode, with empty job
  token and API URL, and the image is pulled; then, if the pull throws an Error, the run
  is marked failed once more and returns; otherwise the proxy builder is constructed in
  cached mode and run with these parameters, and the container start, the readiness
  polling and the publishing of the outputs follow, each when the call before it returns,
  and decide what \<^verbatim>\<open>run\<close> returns.
\<close>

theorem fetch_error_not_reported:
  assumes "getJobParameters w = Some params"
      and "or_else (process_env w ''GITHUB_DEPENDABOT_JOB_TOKEN'') (p_jobToken params) \<noteq> []"
      and "or_else (process_env w ''GITHUB_DEPENDABOT_CRED_TOKEN'') (p_credentialsToken params) \<noteq> []"
      and "getJobDetails w = Inl (Error error)
           \<or> (\<exists>details. getJobDetails w = Inr details \<and> getCredentials w = Inl (Error error))"
  shows "status_calls (trace (fst (run w initial))) = []
       \<and> list_ex is_SetFailed (trace (fst (run w initial)))
       \<and> ((\<exists>e. getCredentialsFromEnv w = Inl e \<and> snd (run w initial) = Inl e
               \<and> Pull (PROXY_IMAGE_NAME w) \<notin> set (trace (fst (run w initial))))
          \<or> (\<exists>jp pre post.
                getCredentialsFromEnv w = Inr jp
                \<and> apiClient jp = None \<and> cachedMode jp
                \<and> jobToken jp = [] \<and> dependabotApiUrl jp = []
                \<and> trace (fst (run w initial)) = pre @ [Pull (PROXY_IMAGE_NAME w)] @ post
                \<and> Pull (PROXY_IMAGE_NAME w) \<notin> set pre
                \<and> ((\<exists>err m. ImageService_pull w (PROXY_IMAGE_NAME w) = Inl (Error err)
                        \<and> snd (run w initial) = Inr ()
                        \<and> post = [SetFailed m,
                               Info (robot @ '' ~ finished: error reported to Dependabot ~'')])
                   \<or> ((\<forall>err. ImageService_pull w (PROXY_IMAGE_NAME w) \<noteq> Inl (Error err))
                      \<and> post =
                          [EndGroup,
                           Info (robot @ '' ~ initialize proxy builder ~''),
                           NewProxyBuilder (PROXY_IMAGE_NAME w) True,
                           Info (robot @ '' ~ building proxy ~''),
                           ProxyBuilderRun (Some (p_jobId params)) [] [] (credentials jp)]
                          @ (case proxyBuilder_run w of
                               Inl e \<Rightarrow> []
                             | Inr proxy \<Rightarrow>
                                 [Info (robot @ '' ~ start proxy ~''), ContainerStart]
                                 @ (case container_start w of
                                      Inl e \<Rightarrow> []
                                    | Inr u \<Rightarrow>
                                        [SaveState ''PROXY_CONTAINER_ID'' (container_id proxy),
                                         ProxyUrl]
                                        @ (case proxy_url w of
                                             Inl e \<Rightarrow> []
                                           | Inr address \<Rightarrow>
                                               (case new_URL w address of
                                                  Inl e \<Rightarrow> []
                                                | Inr proxyUrl \<Rightarrow>
                                                    trace (fst (publish w proxy proxyUrl
                                                                  initial))))))
                      \<and> snd (run w initial) =
                          (case proxyBuilder_run w of
                             Inl e \<Rightarrow> Inl e
                           | Inr proxy \<Rightarrow>
                               (case container_start w of
                                  Inl e \<Rightarrow> Inl e
                                | Inr u \<Rightarrow>
                                    (case proxy_url w of
                                       Inl e \<Rightarrow> Inl e
                                     | Inr address \<Rightarrow>
                                         (case new_URL w address of
                                            Inl e \<Rightarrow> Inl e
                                          | Inr proxyUrl \<Rightarrow>
                                              snd (publish w proxy proxyUrl initial)))))))))"
proof -
  let ?s2 = "fst (getDependabotJobParameters w (begin_state w initial))"
  let ?img = "PROXY_IMAGE_NAME w"
  let ?pre = "trace ?s2 @ [StartGroup ''Pulling updater images'', EndGroup]"
  have none: "params_result w = Inr None"
    by (rule fetch_error_params(1) [OF assms])
  have failed: "list_ex is_SetFailed (trace ?s2)"
    by (rule fetch_error_params(2) [OF assms])
  have jid: "jobId ?s2 = Some (p_jobId params)"
    by (rule fetch_attempted_jobId [OF assms(1-3)])
  have fresh: "Pull ?img \<notin> set ?pre"
    using Pull_begin [of ?img w] by simp
  have mono: "set (trace ?s2) \<subseteq> set (trace (fst (run w initial)))"
  proof -
    have "set (trace (fst (run_until_proxyUrl w initial))) \<subseteq> set (trace (fst (run w initial)))"
      by (rule grows_set [OF grows_run])
    moreover have "set (trace ?s2) \<subseteq> set (trace (fst (run_until_proxyUrl w initial)))"
      by (rule grows_set [OF grows_after_params])
    ultimately show ?thesis by blast
  qed
  have status: "status_calls (trace (fst (run w initial))) = []"
    using run_until_proxyUrl_split [of w initial] none
    by (auto simp: status_run status_stage_pull job_or_env_def initial_def
        dest!: getCredentialsFromEnv_apiClient split: sum.splits thrown.splits)
  have marked: "list_ex is_SetFailed (trace (fst (run w initial)))"
    using failed mono by (auto simp: list_ex_iff)
  show ?thesis
  proof (cases "getCredentialsFromEnv w")
    case (Inl e)
    then have "run w initial = (?s2, Inl e)"
      using run_until_proxyUrl_split [of w initial] none
      by (auto simp: run_split job_or_env_def)
    with Inl Pull_begin [of ?img w] status marked show ?thesis
      by simp
  next
    case (Inr jp)
    then have until: "run_until_proxyUrl w initial = stage_pull w jp ?s2"
      using run_until_proxyUrl_split [of w initial] none
      by (auto simp: job_or_env_def)
    from Inr have jp: "apiClient jp = None" "cachedMode jp" "jobToken jp = []"
      "dependabotApiUrl jp = []"
      using getCredentialsFromEnv_apiClient by blast+
    have "\<exists>post. trace (fst (run w initial)) = ?pre @ [Pull ?img] @ post
       \<and> ((\<exists>err m. ImageService_pull w ?img = Inl (Error err)
               \<and> snd (run w initial) = Inr ()
               \<and> post = [SetFailed m,
                      Info (robot @ '' ~ finished: error reported to Dependabot ~'')])
          \<or> ((\<forall>err. ImageService_pull w ?img \<noteq> Inl (Error err))
             \<and> post =
                 [EndGroup,
                  Info (robot @ '' ~ initialize proxy builder ~''),
                  NewProxyBuilder ?img True,
                  Info (robot @ '' ~ building proxy ~''),
                  ProxyBuilderRun (Some (p_jobId params)) [] [] (credentials jp)]
                 @ (case proxyBuilder_run w of
                      Inl e \<Rightarrow> []
                    | Inr proxy \<Rightarrow>
                        [Info (robot @ '' ~ start proxy ~''), ContainerStart]
                        @ (case container_start w of
                             Inl e \<Rightarrow> []
                           | Inr u \<Rightarrow>
                               [SaveState ''PROXY_CONTAINER_ID'' (container_id proxy), ProxyUrl]
                               @ (case proxy_url w of
                                    Inl e \<Rightarrow> []
                                  | Inr address \<Rightarrow>
                                      (case new_URL w address of
                                         Inl e \<Rightarrow> []
                                       | Inr proxyUrl \<Rightarrow>
                                           trace (fst (publish w proxy proxyUrl initial))))))
             \<and> snd (run w initial) =
                 (case proxyBuilder_run w of
                    Inl e \<Rightarrow> Inl e
                  | Inr proxy \<Rightarrow>
                      (case container_start w of
                         Inl e \<Rightarrow> Inl e
                       | Inr u \<Rightarrow>
                           (case proxy_url w of
                              Inl e \<Rightarrow> Inl e
                            | Inr address \<Rightarrow>
                                (case new_URL w address of
                                   Inl e \<Rightarrow> Inl e
                                 | Inr proxyUrl \<Rightarrow>
                                     snd (publish w proxy proxyUrl initial)))))))"
    proof (cases "\<exists>err. ImageService_pull w ?img = Inl (Error err)")
      case True
      then obtain err where err: "ImageService_pull w ?img = Inl (Error err)" ..
      obtain m where m: "failJob w None (''Error fetching updater images'' @ error_message err)
          err Image (pull_state w ?s2) =
        ((pull_state w ?s2)\<lparr>trace := trace (pull_state w ?s2)
            @ [SetFailed m, Info (robot @ '' ~ finished: error reported to Dependabot ~'')]\<rparr>,
         Inr ())"
        using failJob_None by blast
      have "run_until_proxyUrl w initial =
        ((pull_state w ?s2)\<lparr>trace := trace (pull_state w ?s2)
            @ [SetFailed m, Info (robot @ '' ~ finished: error reported to Dependabot ~'')]\<rparr>,
         Inr None)"
        unfolding until
        by (simp only: stage_pull_def err jp(1) m sum.case thrown.case prod.case)
      then have "snd (run w initial) = Inr ()"
        "trace (fst (run w initial)) = ?pre @ [Pull ?img]
           @ [SetFailed m, Info (robot @ '' ~ finished: error reported to Dependabot ~'')]"
        by (simp_all add: run_split pull_state_def)
      with err show ?thesis by blast
    next
      case False
      then have pull: "\<forall>err. ImageService_pull w ?img \<noteq> Inl (Error err)"
        by simp
      then have build: "run_until_proxyUrl w initial = stage_build w jp (pull_state w ?s2)"
        unfolding until by (auto simp: stage_pull_def split: sum.splits thrown.splits)
      let ?built = "?pre @ [Pull ?img]
          @ [EndGroup,
             Info (robot @ '' ~ initialize proxy builder ~''),
             NewProxyBuilder ?img True,
             Info (robot @ '' ~ building proxy ~''),
             ProxyBuilderRun (Some (p_jobId params)) [] [] (credentials jp)]"
      have built: "trace (build_state w jp (pull_state w ?s2)) = ?built"
        by (simp add: trace_build_state pull_state_def jp jid)
      have result: "snd (run_until_proxyUrl w initial) = build_result w"
        by (simp add: build)
      have shape: "trace (fst (run_until_proxyUrl w initial)) = ?built
          @ (case proxyBuilder_run w of
               Inl e \<Rightarrow> []
             | Inr proxy \<Rightarrow>
                 [Info (robot @ '' ~ start proxy ~''), ContainerStart]
                 @ (case container_start w of
                      Inl e \<Rightarrow> []
                    | Inr u \<Rightarrow> [SaveState ''PROXY_CONTAINER_ID'' (container_id proxy), ProxyUrl]))"
        unfolding build trace_stage_build built ..
      have "trace (fst (run w initial)) = ?built
          @ (case proxyBuilder_run w of
               Inl e \<Rightarrow> []
             | Inr proxy \<Rightarrow>
                 [Info (robot @ '' ~ start proxy ~''), ContainerStart]
                 @ (case container_start w of
                      Inl e \<Rightarrow> []
                    | Inr u \<Rightarrow>
                        [SaveState ''PROXY_CONTAINER_ID'' (container_id proxy), ProxyUrl]
                        @ (case proxy_url w of
                             Inl e \<Rightarrow> []
                           | Inr address \<Rightarrow>
                               (case new_URL w address of
                                  Inl e \<Rightarrow> []
                                | Inr proxyUrl \<Rightarrow>
                                    trace (fst (publish w proxy proxyUrl initial))))))
        \<and> snd (run w initial) =
            (case proxyBuilder_run w of
               Inl e \<Rightarrow> Inl e
             | Inr proxy \<Rightarrow>
                 (case container_start w of
                    Inl e \<Rightarrow> Inl e
                  | Inr u \<Rightarrow>
                      (case proxy_url w of
                         Inl e \<Rightarrow> Inl e
                       | Inr address \<Rightarrow>
                           (case new_URL w address of
                              Inl e \<Rightarrow> Inl e
                            | Inr proxyUrl \<Rightarrow> snd (publish w proxy proxyUrl initial)))))"
      proof (cases "proxyBuilder_run w")
        case (Inl e)
        then show ?thesis
          by (simp add: run_split result shape build_result_def)
      next
        case proxy: (Inr proxy)
        show ?thesis
        proof (cases "container_start w")
          case (Inl e)
          with proxy show ?thesis
            by (simp add: run_split result shape build_result_def)
        next
          case started: (Inr u)
          show ?thesis
          proof (cases "proxy_url w")
            case (Inl e)
            with proxy started show ?thesis
              by (simp add: run_split result shape build_result_def url_result_def)
          next
            case address: (Inr address)
            show ?thesis
            proof (cases "new_URL w address")
              case (Inl e)
              with proxy started address show ?thesis
                by (simp add: run_split result shape build_result_def url_result_def)
            next
              case (Inr proxyUrl)
              with proxy started address show ?thesis
                using trace_publish [of w proxy proxyUrl "fst (run_until_proxyUrl w initial)"]
                  snd_publish [of w proxy proxyUrl "fst (run_until_proxyUrl w initial)"]
                by (simp add: run_split result shape build_result_def url_result_def)
            qed
          qed
        qed
      qed
      with pull show ?thesis by simp
    qed
    with Inr jp fresh status marked show ?thesis
      by blast
  qed
qed

theorem fetch_error_not_reported_witness:
  "getJobParameters world_unauthorized = Some job42
   \<and> or_else (process_env world_unauthorized ''GITHUB_DEPENDABOT_JOB_TOKEN'') (p_jobToken job42) \<noteq> []
   \<and> or_else (process_env world_unauthorized ''GITHUB_DEPENDABOT_CRED_TOKEN'')
        (p_credentialsToken job42) \<noteq> []
   \<and> getJobDetails world_unauthorized = Inl (Error unauthorized)
   \<and> status_calls (trace (fst (run world_unauthorized initial))) = []
   \<and> list_ex is_SetFailed (trace (fst (run world_unauthorized initial)))
   \<and> Pull (PROXY_IMAGE_NAME world_unauthorized) \<in> set (trace (fst (run world_unauthorized initial)))"
proof -
  have h1: "getJobParameters world_unauthorized = Some job42"
    by (simp add: world_defs)
  have h2: "or_else (process_env world_unauthorized ''GITHUB_DEPENDABOT_JOB_TOKEN'') (p_jobToken job42) \<noteq> []"
    by (simp add: world_defs or_else_def)
  have h3: "or_else (process_env world_unauthorized ''GITHUB_DEPENDABOT_CRED_TOKEN'')
        (p_credentialsToken job42) \<noteq> []"
    by (simp add: world_defs or_else_def)
  have h4: "getJobDetails world_unauthorized = Inl (Error unauthorized)"
    by (simp add: world_defs)
  have h5: "getJobDetails world_unauthorized = Inl (Error unauthorized)
      \<or> (\<exists>details. getJobDetails world_unauthorized = Inr details
            \<and> getCredentials world_unauthorized = Inl (Error unauthorized))"
    using h4 by simp
  have env: "\<And>e. getCredentialsFromEnv world_unauthorized \<noteq> Inl e"
    by (simp add: getCredentialsFromEnv_def or_else_def world_defs)
  note t = fetch_error_not_reported [OF h1 h2 h3 h5]
  from t have a: "status_calls (trace (fst (run world_unauthorized initial))) = []"
    by (rule conjunct1)
  from t have b: "list_ex is_SetFailed (trace (fst (run world_unauthorized initial)))"
    by (rule conjunct1 [OF conjunct2])
  from t have "\<exists>pre post. trace (fst (run world_unauthorized initial))
      = pre @ [Pull (PROXY_IMAGE_NAME world_unauthorized)] @ post"
    using env by blast
  then have c: "Pull (PROXY_IMAGE_NAME world_unauthorized)
      \<in> set (trace (fst (run world_unauthorized initial)))"
    by auto
  from h1 h2 h3 h4 a b c show ?thesis by simp
qed

text \<open>
  C2, as stated, fails: \<^verbatim>\<open>getJobDetails\<close> answers 401 with an Error, and the run still
  pulls the image and constructs the proxy builder (in cached mode).
\<close>

theorem fetch_error_continues:
  "getJobDetails world_unauthorized = Inl (Error unauthorized)
   \<and> Pull ''proxy-image'' \<in> set (trace (fst (run world_unauthorized initial)))
   \<and> NewProxyBuilder ''proxy-image'' True \<in> set (trace (fst (run world_unauthorized initial)))"
  by (simp add: run_defs params_defs world_defs)


section \<open>Cached mode\<close>

lemma fetch_result_cachedMode:
  "fetch_result w p t c = Inr jp \<Longrightarrow> cachedMode jp = carries_proxy_cached w"
  by (auto simp: fetch_result_def fetch_job_def has_proxy_cached_def carries_proxy_cached_def
      Let_def simp del: set_map split: sum.splits option.splits if_splits)

lemma fetched_cachedMode:
  "params_result w = Inr (Some jp) \<Longrightarrow> cachedMode jp = carries_proxy_cached w"
  by (auto simp: params_result_def getDependabotJobParameters_def Let_def case_prod_unfold
      dest: fetch_result_cachedMode
      split: option.splits sum.splits thrown.splits if_splits)

lemma NewProxyBuilder_stage_pull:
  assumes "NewProxyBuilder i c \<in> set (trace (fst (stage_pull w jp s)))"
  shows "NewProxyBuilder i c \<in> set (trace s) \<or> c = cachedMode jp"
proof (cases "\<exists>error. ImageService_pull w (PROXY_IMAGE_NAME w) = Inl (Error error)")
  case True
  then obtain error where "ImageService_pull w (PROXY_IMAGE_NAME w) = Inl (Error error)" ..
  then have "fst (stage_pull w jp s) =
      fst (failJob w (apiClient jp) (''Error fetching updater images'' @ error_message error)
        error Image (pull_state w s))"
    by (simp add: stage_pull_def case_prod_unfold split: sum.splits)
  moreover have "grows {Logging, Pulling, Status, Failure} s
      (fst (failJob w (apiClient jp) (''Error fetching updater images'' @ error_message error)
        error Image (pull_state w s)))"
    by (simp add: grows_failJob grows_pull_state)
  ultimately show ?thesis
    using assms grows_old by fastforce
next
  case False
  then have "fst (stage_pull w jp s) = fst (stage_build w jp (pull_state w s))"
    by (auto simp: stage_pull_def split: sum.splits thrown.splits)
  with assms have "NewProxyBuilder i c \<in> set (trace (build_state w jp (pull_state w s)))"
    using grows_old [OF grows_after_build] by fastforce
  then show ?thesis
    by (auto simp: trace_build_state pull_state_def)
qed

lemma NewProxyBuilder_run:
  assumes "NewProxyBuilder i c \<in> set (trace (fst (run w initial)))"
  shows "\<exists>jobParameters jp. params_result w = Inr jobParameters
           \<and> job_or_env w jobParameters = Inr jp \<and> c = cachedMode jp"
proof -
  let ?s2 = "fst (getDependabotJobParameters w (begin_state w initial))"
  have until: "NewProxyBuilder i c \<in> set (trace (fst (run_until_proxyUrl w initial)))"
    using assms grows_old [OF grows_run] by fastforce
  have "grows {Logging, Fetching, Failure} initial ?s2"
    by (simp add: grows_getDependabotJobParameters grows_begin_state)
  then have s2: "NewProxyBuilder i c \<notin> set (trace ?s2)"
    using grows_old [of "{Logging, Fetching, Failure}" initial ?s2 "NewProxyBuilder i c"]
    by (auto simp: initial_def)
  from run_until_proxyUrl_split [of w initial]
  consider (threw) e where "run_until_proxyUrl w initial = (?s2, Inl e)"
    | (pulled) jobParameters jp where "params_result w = Inr jobParameters"
        "job_or_env w jobParameters = Inr jp"
        "run_until_proxyUrl w initial = stage_pull w jp ?s2"
    by auto
  then show ?thesis
  proof cases
    case threw
    with until s2 show ?thesis by simp
  next
    case pulled
    with until s2 have "c = cachedMode jp"
      using NewProxyBuilder_stage_pull [of i c w jp ?s2] by simp
    with pulled show ?thesis by auto
  qed
qed

text \<open>
  C5, as the code has it. The proxy builder is constructed in cached mode exactly when
  either the job parameters have been fetched and the job details carry the experiment
  \<^verbatim>\<open>proxy-cached\<close>, or \<^verbatim>\<open>getDependabotJobParameters\<close> has returned \<^verbatim>\<open>null\<close> and the
  parameters come from \<^verbatim>\<open>getCredentialsFromEnv\<close>, which sets \<^verbatim>\<open>cachedMode: true\<close>.
\<close>

theorem cached_mode_flag_or_env:
  assumes "NewProxyBuilder img cached \<in> set (trace (fst (run w initial)))"
  shows "cached = (case snd (getDependabotJobParameters w initial) of
                     Inr (Some jp) \<Rightarrow> carries_proxy_cached w
                   | _ \<Rightarrow> True)"
proof -
  from NewProxyBuilder_run [OF assms] obtain jobParameters jp where
    a: "params_result w = Inr jobParameters" "job_or_env w jobParameters = Inr jp"
       "cached = cachedMode jp"
    by blast
  show ?thesis
  proof (cases jobParameters)
    case None
    with a show ?thesis
      by (auto simp: job_or_env_def dest: getCredentialsFromEnv_apiClient)
  next
    case (Some p)
    with a show ?thesis
      by (auto simp: job_or_env_def dest: fetched_cachedMode)
  qed
qed

theorem cached_mode_flag_or_env_witness:
  "NewProxyBuilder ''proxy-image'' True \<in> set (trace (fst (run world_cached initial)))
   \<and> True = (case snd (getDependabotJobParameters world_cached initial) of
               Inr (Some jp) \<Rightarrow> carries_proxy_cached world_cached
             | _ \<Rightarrow> True)
   \<and> snd (getDependabotJobParameters world_cached initial)
       = Inr (Some (job42_parameters\<lparr>cachedMode := True\<rparr>))"
proof -
  have h: "NewProxyBuilder ''proxy-image'' True \<in> set (trace (fst (run world_cached initial)))"
    by (simp add: run_defs params_defs world_defs)
  have p: "snd (getDependabotJobParameters world_cached initial)
       = Inr (Some (job42_parameters\<lparr>cachedMode := True\<rparr>))"
    by (simp add: params_result_def params_defs world_defs)
  show ?thesis
    using cached_mode_flag_or_env [OF h] h p by simp
qed

text \<open>
  C5, as stated, fails: without job parameters no job details are fetched, so no
  experiment flag is read, and the proxy builder is still constructed in cached mode.
\<close>

theorem cached_mode_without_flag:
  "getJobParameters world_no_job = None
   \<and> GetJobDetails \<notin> set (trace (fst (run world_no_job initial)))
   \<and> NewProxyBuilder ''proxy-image'' True \<in> set (trace (fst (run world_no_job initial)))"
  by (simp add: run_defs params_defs world_defs)


section \<open>A thrown value that is not an Error\<close>

text \<open>
  C9. When \<^verbatim>\<open>ImageService.pull\<close> throws a value that is not an Error and the pull has been
  reached, the trace goes on, right after the pull, with the end of the group and the
  construction and the run of the proxy builder; what follows holds no call to the
  job-control service and no \<^verbatim>\<open>setFailed\<close>, and the whole trace holds no call to the
  job-control service.
\<close>

theorem non_error_pull_swallowed:
  assumes "ImageService_pull w (PROXY_IMAGE_NAME w) = Inl (NonError v)"
      and "Pull (PROXY_IMAGE_NAME w) \<in> set (trace (fst (run w initial)))"
  shows "status_calls (trace (fst (run w initial))) = []
       \<and> (\<exists>pre post cached j t u cs.
            trace (fst (run w initial)) =
              pre @ [Pull (PROXY_IMAGE_NAME w), EndGroup,
                     Info (robot @ '' ~ initialize proxy builder ~''),
                     NewProxyBuilder (PROXY_IMAGE_NAME w) cached,
                     Info (robot @ '' ~ building proxy ~''),
                     ProxyBuilderRun j t u cs] @ post
            \<and> \<not> list_ex is_SetFailed post \<and> \<not> list_ex is_status_call post)"
proof -
  let ?s2 = "fst (getDependabotJobParameters w (begin_state w initial))"
  have status: "status_calls (trace (fst (run w initial))) = []"
    using run_until_proxyUrl_split [of w initial] assms(1)
    by (auto simp: status_run status_stage_pull initial_def)
  from run_until_proxyUrl_split [of w initial]
  consider (threw) e where "run_until_proxyUrl w initial = (?s2, Inl e)"
    | (pulled) jp where "run_until_proxyUrl w initial = stage_pull w jp ?s2"
    by auto
  then have "\<exists>pre post cached j t u cs.
            trace (fst (run w initial)) =
              pre @ [Pull (PROXY_IMAGE_NAME w), EndGroup,
                     Info (robot @ '' ~ initialize proxy builder ~''),
                     NewProxyBuilder (PROXY_IMAGE_NAME w) cached,
                     Info (robot @ '' ~ building proxy ~''),
                     ProxyBuilderRun j t u cs] @ post
            \<and> \<not> list_ex is_SetFailed post \<and> \<not> list_ex is_status_call post"
  proof cases
    case threw
    then have "run w initial = (?s2, Inl e)"
      by (simp add: run_split)
    with assms(2) Pull_begin [of "PROXY_IMAGE_NAME w" w] show ?thesis by simp
  next
    case pulled
    define s8 where "s8 = build_state w jp (pull_state w ?s2)"
    have "fst (run_until_proxyUrl w initial) = fst (stage_build w jp (pull_state w ?s2))"
      using pulled assms(1) by (simp add: stage_pull_def)
    then have "grows {Logging, Proxying} s8 (fst (run_until_proxyUrl w initial))"
      unfolding s8_def using grows_after_build [of w jp "pull_state w ?s2"] by simp
    then have "grows {Logging, Proxying, Filing, Exporting} s8 (fst (run_until_proxyUrl w initial))"
      by (rule grows_mono) simp
    moreover have "grows {Logging, Proxying, Filing, Exporting}
        (fst (run_until_proxyUrl w initial)) (fst (run w initial))"
      by (rule grows_mono [OF grows_run]) simp
    ultimately have "grows {Logging, Proxying, Filing, Exporting} s8 (fst (run w initial))"
      by (rule grows_trans)
    then obtain post where post: "trace (fst (run w initial)) = trace s8 @ post"
        "\<forall>e\<in>set post. kind_of e \<in> {Logging, Proxying, Filing, Exporting}"
      using grows_extension by blast
    have "\<not> list_ex is_SetFailed post" "\<not> list_ex is_status_call post"
      using post(2) by (auto simp: list_ex_iff is_SetFailed_kind is_status_call_kind)
    moreover have "trace (fst (run w initial)) =
        (trace ?s2 @ [StartGroup ''Pulling updater images'', EndGroup])
        @ [Pull (PROXY_IMAGE_NAME w), EndGroup,
           Info (robot @ '' ~ initialize proxy builder ~''),
           NewProxyBuilder (PROXY_IMAGE_NAME w) (cachedMode jp),
           Info (robot @ '' ~ building proxy ~''),
           ProxyBuilderRun (jobId (pull_state w ?s2)) (jobToken jp) (dependabotApiUrl jp)
             (credentials jp)] @ post"
      by (simp add: post(1) s8_def trace_build_state pull_state_def)
    ultimately show ?thesis by blast
  qed
  with status show ?thesis by blast
qed

theorem non_error_pull_swallowed_witness:
  "ImageService_pull world_pull_rejects (PROXY_IMAGE_NAME world_pull_rejects)
     = Inl (NonError ''timeout'')
   \<and> Pull (PROXY_IMAGE_NAME world_pull_rejects) \<in> set (trace (fst (run world_pull_rejects initial)))
   \<and> status_calls (trace (fst (run world_pull_rejects initial))) = []
   \<and> (\<exists>pre post cached j t u cs.
        trace (fst (run world_pull_rejects initial)) =
          pre @ [Pull (PROXY_IMAGE_NAME world_pull_rejects), EndGroup,
                 Info (robot @ '' ~ initialize proxy builder ~''),
                 NewProxyBuilder (PROXY_IMAGE_NAME world_pull_rejects) cached,
                 Info (robot @ '' ~ building proxy ~''),
                 ProxyBuilderRun j t u cs] @ post
        \<and> \<not> list_ex is_SetFailed post \<and> \<not> list_ex is_status_call post)"
proof -
  have h1: "ImageService_pull world_pull_rejects (PROXY_IMAGE_NAME world_pull_rejects)
     = Inl (NonError ''timeout'')"
    by (simp add: world_defs)
  have h2: "Pull (PROXY_IMAGE_NAME world_pull_rejects)
      \<in> set (trace (fst (run world_pull_rejects initial)))"
    by (simp add: run_defs params_defs world_defs)
  show ?thesis
    using non_error_pull_swallowed [OF h1 h2] h1 h2 by blast
qed


section \<open>Successful runs\<close>

lemma setFailed_failJob:
  "snd (failJob w c m e t s) = Inr () \<Longrightarrow> list_ex is_SetFailed (trace (fst (failJob w c m e t s)))"
  by (auto simp: failJob_def fail_result_def Let_def split: option.splits sum.splits)

lemma early_return_failed:
  assumes "snd (stage_pull w jp s) = Inr None"
  shows "list_ex is_SetFailed (trace (fst (stage_pull w jp s)))"
proof -
  from assms obtain error where error: "ImageService_pull w (PROXY_IMAGE_NAME w) = Inl (Error error)"
    using build_result_Some [of w]
    by (auto simp: pull_result_def split: sum.splits thrown.splits)
  with assms have "fail_result w (apiClient jp) = Inr ()"
    by (auto simp: pull_result_def split: sum.splits)
  then have "list_ex is_SetFailed (trace (fst (failJob w (apiClient jp)
      (''Error fetching updater images'' @ error_message error) error Image (pull_state w s))))"
    by (intro setFailed_failJob) simp
  with error show ?thesis
    by (simp add: stage_pull_def case_prod_unfold split: sum.splits)
qed

lemma pull_result_proxy:
  "pull_result w c = Inr (Some (proxy, proxyUrl)) \<Longrightarrow> build_result w = Inr (Some (proxy, proxyUrl))"
  by (auto simp: pull_result_def split: sum.splits thrown.splits)

lemma or_else_empty: "or_else v [] = (case v of None \<Rightarrow> [] | Some old \<Rightarrow> old)"
  by (simp add: or_else_def split: option.splits)

lemma publish_success:
  assumes "snd (publish w proxy proxyUrl s) = Inr ()"
  shows "\<exists>certificate. certificateFromPem w (cert proxy) = Inr certificate
         \<and> files_written (trace (fst (publish w proxy proxyUrl s)))
             = files_written (trace s) @ published_files w proxy proxyUrl certificate
         \<and> exported (trace (fst (publish w proxy proxyUrl s)))
             = exported (trace s) @ published_variables w proxy proxyUrl"
  using assms
  by (simp add: publish_def writeFileSync_def mkdirSync_def export_variables_def Let_def
        published_files_def published_variables_def password_def
      split: option.splits sum.splits)

lemma no_outputs_until_proxyUrl:
  "files_written (trace (fst (run_until_proxyUrl w initial))) = []"
  "exported (trace (fst (run_until_proxyUrl w initial))) = []"
  using grows_files [OF grows_run_until_proxyUrl [of initial w]]
    grows_exported [OF grows_run_until_proxyUrl [of initial w]]
  by (simp_all add: initial_def)

lemma run_until_result:
  "snd (run_until_proxyUrl w s) = Inr r \<Longrightarrow>
     (\<exists>c. pull_result w c = Inr r)
     \<and> (r = None \<longrightarrow> list_ex is_SetFailed (trace (fst (run_until_proxyUrl w s))))"
  using run_until_proxyUrl_split [of w s]
  by (auto dest: early_return_failed [unfolded snd_stage_pull])

lemma successful_run:
  assumes "successful (run w initial)"
  shows "\<exists>proxy text proxyUrl certificate.
           proxyBuilder_run w = Inr proxy \<and> proxy_url w = Inr text
           \<and> new_URL w text = Inr proxyUrl \<and> certificateFromPem w (cert proxy) = Inr certificate
           \<and> files_written (trace (fst (run w initial)))
               = published_files w proxy proxyUrl certificate
           \<and> exported (trace (fst (run w initial))) = published_variables w proxy proxyUrl"
proof -
  let ?u = "run_until_proxyUrl w initial"
  from assms have ok: "snd (run w initial) = Inr ()"
    and clean: "\<not> list_ex is_SetFailed (trace (fst (run w initial)))"
    by (simp_all add: successful_def)
  from ok obtain r where r: "snd ?u = Inr r"
    by (cases "snd ?u") (simp_all add: run_split)
  have "r \<noteq> None"
  proof
    assume "r = None"
    with r have "list_ex is_SetFailed (trace (fst ?u))" "run w initial = (fst ?u, Inr ())"
      using run_until_result [of w initial] by (simp_all add: run_split)
    with clean show False by simp
  qed
  then obtain proxy proxyUrl where pu: "r = Some (proxy, proxyUrl)"
    by (cases r) auto
  with r have run: "run w initial = publish w proxy proxyUrl (fst ?u)"
    by (simp add: run_split)
  from r pu have "build_result w = Inr (Some (proxy, proxyUrl))"
    using run_until_result [of w initial] pull_result_proxy by blast
  then obtain address where built: "proxyBuilder_run w = Inr proxy" "proxy_url w = Inr address"
      "new_URL w address = Inr proxyUrl"
    using build_result_proxy by blast
  from ok run have "snd (publish w proxy proxyUrl (fst ?u)) = Inr ()"
    by simp
  from publish_success [OF this] built show ?thesis
    by (auto simp: run no_outputs_until_proxyUrl)
qed

text \<open>
  C7. After a successful run of the richer variant, the files written are exactly: the
  PKCS#12 trust store, at the resolved path of \<^verbatim>\<open>keystore.p12\<close>, built from a generated
  key and the proxy's certificate under the password \<^verbatim>\<open>changeit\<close> and written in binary;
  the proxy's certificate in PEM form at the resolved path of \<^verbatim>\<open>cert.pem\<close>; and the Maven
  settings. The exported variables are exactly the eight of \<open>published_variables\<close>, among
  them the proxy host, the proxy port, the trust-store path, the path of the CA
  certificate and the name of the network.
\<close>

theorem successful_run_outputs:
  assumes "successful (run w initial)"
  shows "\<exists>proxy text proxyUrl certificate.
           proxyBuilder_run w = Inr proxy \<and> proxy_url w = Inr text
           \<and> new_URL w text = Inr proxyUrl \<and> certificateFromPem w (cert proxy) = Inr certificate
           \<and> files_written (trace (fst (run w initial))) =
               [(path_resolve w ''keystore.p12'',
                 toPkcs12Der w (Some (generateKeyPair w)) certificate (Some ''changeit'')
                   (Some dummy_key_options),
                 Binary),
                (path_resolve w ''cert.pem'', cert proxy, Utf8),
                (path_join w (path_join w (homedir w) ''.m2'') ''settings.xml'',
                 settings proxyUrl, Utf8)]
           \<and> map fst (exported (trace (fst (run w initial)))) =
               [''MAVEN_OPTS'', ''GRADLE_OPTS'', ''SEMMLE_JAVA_EXTRACTOR_JVM_ARGS'',
                ''CODEQL_JAVA_EXTRACTOR_TRUST_STORE_PATH'', ''PROXY_NETWORK_NAME'',
                ''PROXY_HOST'', ''PROXY_PORT'', ''PROXY_CA_CERT'']
           \<and> (''PROXY_HOST'', hostname proxyUrl) \<in> set (exported (trace (fst (run w initial))))
           \<and> (''PROXY_PORT'', port proxyUrl) \<in> set (exported (trace (fst (run w initial))))
           \<and> (''CODEQL_JAVA_EXTRACTOR_TRUST_STORE_PATH'', path_resolve w ''keystore.p12'')
               \<in> set (exported (trace (fst (run w initial))))
           \<and> (''PROXY_CA_CERT'', path_resolve w ''cert.pem'')
               \<in> set (exported (trace (fst (run w initial))))
           \<and> (''PROXY_NETWORK_NAME'', networkName proxy)
               \<in> set (exported (trace (fst (run w initial))))"
proof -
  from successful_run [OF assms] obtain proxy address proxyUrl certificate where
    a: "proxyBuilder_run w = Inr proxy" "proxy_url w = Inr address"
       "new_URL w address = Inr proxyUrl" "certificateFromPem w (cert proxy) = Inr certificate"
       "files_written (trace (fst (run w initial))) = published_files w proxy proxyUrl certificate"
       "exported (trace (fst (run w initial))) = published_variables w proxy proxyUrl"
    by blast
  have "map fst (published_variables w proxy proxyUrl) =
               [''MAVEN_OPTS'', ''GRADLE_OPTS'', ''SEMMLE_JAVA_EXTRACTOR_JVM_ARGS'',
                ''CODEQL_JAVA_EXTRACTOR_TRUST_STORE_PATH'', ''PROXY_NETWORK_NAME'',
                ''PROXY_HOST'', ''PROXY_PORT'', ''PROXY_CA_CERT'']"
    by (simp add: published_variables_def)
  moreover have "(''PROXY_HOST'', hostname proxyUrl) \<in> set (published_variables w proxy proxyUrl)"
    "(''PROXY_PORT'', port proxyUrl) \<in> set (published_variables w proxy proxyUrl)"
    "(''CODEQL_JAVA_EXTRACTOR_TRUST_STORE_PATH'', path_resolve w ''keystore.p12'')
       \<in> set (published_variables w proxy proxyUrl)"
    "(''PROXY_CA_CERT'', path_resolve w ''cert.pem'') \<in> set (published_variables w proxy proxyUrl)"
    "(''PROXY_NETWORK_NAME'', networkName proxy) \<in> set (published_variables w proxy proxyUrl)"
    by (simp_all add: published_variables_def)
  ultimately show ?thesis
    using a unfolding published_files_def by (intro exI [of _ proxy] exI [of _ address]
        exI [of _ proxyUrl] exI [of _ certificate]) simp
qed

lemma successful_world_ok: "successful (run world_ok initial)"
  by (simp add: successful_def run_defs params_defs world_defs)


theorem successful_run_outputs_witness:
  "successful (run world_ok initial)
   \<and> files_written (trace (fst (run world_ok initial))) =
       [(''/work/keystore.p12'', ''KEY/PEM/changeit'', Binary),
        (''/work/cert.pem'', ''PEM'', Utf8),
        (''/home/runner/.m2/settings.xml'',
         settings \<lparr>hostname = ''172.17.0.2'', port = ''1080''\<rparr>, Utf8)]
   \<and> (''PROXY_HOST'', ''172.17.0.2'') \<in> set (exported (trace (fst (run world_ok initial))))
   \<and> (''PROXY_PORT'', ''1080'') \<in> set (exported (trace (fst (run world_ok initial))))
   \<and> (''CODEQL_JAVA_EXTRACTOR_TRUST_STORE_PATH'', ''/work/keystore.p12'')
       \<in> set (exported (trace (fst (run world_ok initial))))
   \<and> (''PROXY_CA_CERT'', ''/work/cert.pem'') \<in> set (exported (trace (fst (run world_ok initial))))
   \<and> (''PROXY_NETWORK_NAME'', ''job-42-net'') \<in> set (exported (trace (fst (run world_ok initial))))"
proof -
  have p: "proxyBuilder_run world_ok
      = Inr \<lparr>cert = ''PEM'', networkName = ''job-42-net'', container_id = ''c1''\<rparr>"
    and u: "proxy_url world_ok = Inr ''http://172.17.0.2:1080''"
    and n: "new_URL world_ok ''http://172.17.0.2:1080''
      = Inr \<lparr>hostname = ''172.17.0.2'', port = ''1080''\<rparr>"
    and c: "certificateFromPem world_ok ''PEM'' = Inr ''PEM''"
    and k: "toPkcs12Der world_ok (Some (generateKeyPair world_ok)) ''PEM'' (Some ''changeit'')
        (Some dummy_key_options) = ''KEY/PEM/changeit''"
    and r: "path_resolve world_ok ''keystore.p12'' = ''/work/keystore.p12''"
      "path_resolve world_ok ''cert.pem'' = ''/work/cert.pem''"
    and j: "path_join world_ok (path_join world_ok (homedir world_ok) ''.m2'') ''settings.xml''
      = ''/home/runner/.m2/settings.xml''"
    by (simp_all add: world_ok_def)
  from successful_run_outputs [OF successful_world_ok] show ?thesis
    using successful_world_ok by (auto simp: p u n c k r j)
qed

section \<open>Java options already in the environment\<close>

lemma successful_run_exported:
  assumes "successful (run w initial)"
  shows "\<exists>proxy proxyUrl.
           exported (trace (fst (run w initial))) = published_variables w proxy proxyUrl"
  using successful_run [OF assms] by (elim exE conjE) (rule exI)+

lemma published_java_options:
  assumes "k \<in> {''MAVEN_OPTS'', ''GRADLE_OPTS'', ''SEMMLE_JAVA_EXTRACTOR_JVM_ARGS''}"
  shows "\<exists>new. map snd (filter (\<lambda>kv. fst kv = k) (published_variables w proxy proxyUrl))
      = [new @ '' '' @ (case process_env w k of None \<Rightarrow> [] | Some old \<Rightarrow> old)]"
proof -
  let ?ssl = "JAVA_SSL_OPTS (path_resolve w ''keystore.p12'')"
  let ?old = "case process_env w k of None \<Rightarrow> [] | Some old \<Rightarrow> old"
  from assms consider "k = ''MAVEN_OPTS''" | "k = ''GRADLE_OPTS''"
    | "k = ''SEMMLE_JAVA_EXTRACTOR_JVM_ARGS''"
    by auto
  then show ?thesis
  proof cases
    case 1
    then have "map snd (filter (\<lambda>kv. fst kv = k) (published_variables w proxy proxyUrl))
      = [(?ssl @ '' -DproxySet=true '' @ JAVA_PROXY_OPTS proxyUrl) @ '' '' @ ?old]"
      by (simp add: published_variables_def or_else_empty)
    then show ?thesis
      by (intro exI [of _ "?ssl @ '' -DproxySet=true '' @ JAVA_PROXY_OPTS proxyUrl"])
  next
    case 2
    then have "map snd (filter (\<lambda>kv. fst kv = k) (published_variables w proxy proxyUrl))
      = [(?ssl @ '' '' @ JAVA_PROXY_OPTS proxyUrl) @ '' '' @ ?old]"
      by (simp add: published_variables_def or_else_empty)
    then show ?thesis
      by (intro exI [of _ "?ssl @ '' '' @ JAVA_PROXY_OPTS proxyUrl"])
  next
    case 3
    then have "map snd (filter (\<lambda>kv. fst kv = k) (published_variables w proxy proxyUrl))
      = [(?ssl @ '' '' @ JAVA_PROXY_OPTS proxyUrl) @ '' '' @ ?old]"
      by (simp add: published_variables_def or_else_empty)
    then show ?thesis
      by (intro exI [of _ "?ssl @ '' '' @ JAVA_PROXY_OPTS proxyUrl"])
  qed
qed

text \<open>
  C10. After a successful run, each of \<^verbatim>\<open>MAVEN_OPTS\<close>, \<^verbatim>\<open>GRADLE_OPTS\<close> and
  \<^verbatim>\<open>SEMMLE_JAVA_EXTRACTOR_JVM_ARGS\<close> has been exported exactly once, with a value that ends
  with a space followed by the value the variable had in the environment (by the empty
  string when it was unset).
\<close>

theorem java_options_keep_old_value:
  assumes "successful (run w initial)"
      and "k \<in> {''MAVEN_OPTS'', ''GRADLE_OPTS'', ''SEMMLE_JAVA_EXTRACTOR_JVM_ARGS''}"
  shows "\<exists>new. map snd (filter (\<lambda>kv. fst kv = k) (exported (trace (fst (run w initial)))))
           = [new @ '' '' @ (case process_env w k of None \<Rightarrow> [] | Some old \<Rightarrow> old)]
         \<and> suffix (case process_env w k of None \<Rightarrow> [] | Some old \<Rightarrow> old)
             (new @ '' '' @ (case process_env w k of None \<Rightarrow> [] | Some old \<Rightarrow> old))"
proof -
  let ?old = "case process_env w k of None \<Rightarrow> [] | Some old \<Rightarrow> old"
  from successful_run_exported [OF assms(1)] show ?thesis
  proof (elim exE)
    fix proxy proxyUrl
    assume e: "exported (trace (fst (run w initial))) = published_variables w proxy proxyUrl"
    from published_java_options [OF assms(2), of w proxy proxyUrl] show ?thesis
    proof (elim exE)
      fix new
      assume n: "map snd (filter (\<lambda>kv. fst kv = k) (published_variables w proxy proxyUrl))
        = [new @ '' '' @ ?old]"
      have "suffix ?old (new @ '' '' @ ?old)"
        using suffixI [of "new @ '' '' @ ?old" "new @ '' ''" ?old] by simp
      with n show ?thesis
        unfolding e by (intro exI [of _ new] conjI)
    qed
  qed
qed

theorem java_options_keep_old_value_witness:
  "successful (run world_ok initial)
   \<and> ''MAVEN_OPTS'' \<in> {''MAVEN_OPTS'', ''GRADLE_OPTS'', ''SEMMLE_JAVA_EXTRACTOR_JVM_ARGS''}
   \<and> process_env world_ok ''MAVEN_OPTS'' = Some ''-Xmx1g''
   \<and> (\<exists>new. map snd (filter (\<lambda>kv. fst kv = ''MAVEN_OPTS'')
                 (exported (trace (fst (run world_ok initial)))))
           = [new @ '' '' @ ''-Xmx1g'']
         \<and> suffix ''-Xmx1g'' (new @ '' '' @ ''-Xmx1g''))"
proof -
  have h: "''MAVEN_OPTS'' \<in> {''MAVEN_OPTS'', ''GRADLE_OPTS'', ''SEMMLE_JAVA_EXTRACTOR_JVM_ARGS''}"
    by simp
  have env: "process_env world_ok ''MAVEN_OPTS'' = Some ''-Xmx1g''"
    by (simp add: world_ok_def)
  from java_options_keep_old_value [OF successful_world_ok h] show ?thesis
    using successful_world_ok h unfolding env by simp
qed


section \<open>The two variants\<close>

subsection \<open>The minimal variant makes the calls of the richer one, with other log lines\<close>

lemma relabel_botSay [simp]: "relabel (Info (robot @ m)) = Info (robot_minimal @ m)"
  by (simp add: robot_def)

lemma relabel_fetching [simp]:
  "relabel (Info ''Fetching job details'') = Info ''Fetching job details''"
  by (simp add: robot_def)

declare relabel.simps(1) [simp del]

lemma trace_relabelled [simp]: "trace (relabelled s) = map relabel (trace s)"
  by (simp add: relabelled_def)

lemma jobId_relabelled [simp]: "jobId (relabelled s) = jobId s"
  by (simp add: relabelled_def)

lemma relabelled_initial [simp]: "relabelled initial = initial"
  by (simp add: relabelled_def initial_def)

lemma relabelled_emit: "relabel e = e \<Longrightarrow> emit e (relabelled s) = relabelled (emit e s)"
  by (simp add: relabelled_def emit_def)

lemma relabelled_botSay [simp]: "botSay_minimal m (relabelled s) = relabelled (botSay m s)"
  by (simp add: relabelled_def emit_def botSay_def botSay_minimal_def)

lemma relabelled_setFailed [simp]: "setFailed w m e (relabelled s) = relabelled (setFailed w m e s)"
  by (simp add: relabelled_def emit_def setFailed_def truthy_jobId_def dependabotJobHelp_def
      Let_def)

lemma relabelled_jobId [simp]: "(relabelled s)\<lparr>jobId := j\<rparr> = relabelled (s\<lparr>jobId := j\<rparr>)"
  by (simp add: relabelled_def)

lemma relabelled_fetch_job [simp]:
  "fetch_job w p t c (relabelled s) = (relabelled (fst (fetch_job w p t c s)), fetch_result w p t c)"
  by (simp add: fetch_job_def fetch_result_def Let_def relabelled_emit
      split: sum.splits)

lemma relabelled_getDependabotJobParameters [simp]:
  "getDependabotJobParameters_minimal w (relabelled s)
     = (relabelled (fst (getDependabotJobParameters w s)), params_result w)"
  by (simp add: getDependabotJobParameters_minimal_def getDependabotJobParameters_def
        params_result_def Let_def relabelled_emit case_prod_unfold
      split: option.splits sum.splits thrown.splits)

lemma relabelled_failJob [simp]:
  "failJob_minimal w c m e t (relabelled s)
     = (relabelled (fst (failJob w c m e t s)), fail_result w c)"
  by (simp add: failJob_minimal_def failJob_def fail_result_def Let_def relabelled_emit
      split: option.splits sum.splits)


lemma run_until_proxyUrl_minimal_staged:
  "run_until_proxyUrl_minimal w s =
     (case getDependabotJobParameters_minimal w (begin_state_minimal w s) of
        (s2, Inl e) \<Rightarrow> (s2, Inl e)
      | (s2, Inr jobParameters) \<Rightarrow>
          (case job_or_env w jobParameters of
             Inl e \<Rightarrow> (s2, Inl e)
           | Inr jp \<Rightarrow> stage_pull_minimal w jp s2))"
  unfolding run_until_proxyUrl_minimal_def stage_pull_minimal_def stage_build_minimal_def
    stage_start_minimal_def stage_url_def job_or_env_def begin_state_minimal_def pull_state_def
    build_state_minimal_def Let_def
  by (rule refl)

lemma relabelled_begin_state [simp]:
  "begin_state_minimal w (relabelled s) = relabelled (begin_state w s)"
  by (simp add: begin_state_minimal_def begin_state_def relabelled_emit)

lemma relabelled_pull_state [simp]: "pull_state w (relabelled s) = relabelled (pull_state w s)"
  by (simp add: pull_state_def relabelled_emit)

lemma relabelled_stage_url [simp]:
  "stage_url w proxy (relabelled s) = (relabelled (fst (stage_url w proxy s)), url_result w proxy)"
  by (simp add: stage_url_def url_result_def Let_def relabelled_emit split: sum.splits)

lemma relabelled_stage_start [simp]:
  "stage_start_minimal w proxy (relabelled s)
     = (relabelled (fst (stage_start w proxy s)),
        case container_start w of Inl e \<Rightarrow> Inl e | Inr u \<Rightarrow> url_result w proxy)"
  by (simp add: stage_start_minimal_def stage_start_def Let_def relabelled_emit
      split: sum.splits)

lemma relabelled_build_state [simp]:
  "build_state_minimal w jp (relabelled s) = relabelled (build_state w jp s)"
  by (simp add: build_state_minimal_def build_state_def Let_def relabelled_emit)

lemma relabelled_stage_build [simp]:
  "stage_build_minimal w jp (relabelled s)
     = (relabelled (fst (stage_build w jp s)), build_result w)"
  by (simp add: stage_build_minimal_def stage_build_def build_result_def split: sum.splits)

lemma relabelled_stage_pull [simp]:
  "stage_pull_minimal w jp (relabelled s)
     = (relabelled (fst (stage_pull w jp s)), pull_result w (apiClient jp))"
  by (simp add: stage_pull_minimal_def stage_pull_def pull_result_def case_prod_unfold
      split: sum.splits thrown.splits)

lemma relabelled_run_until_proxyUrl:
  "run_until_proxyUrl_minimal w (relabelled s)
     = (relabelled (fst (run_until_proxyUrl w s)), snd (run_until_proxyUrl w s))"
  using run_until_proxyUrl_split [of w s]
  by (auto simp: run_until_proxyUrl_minimal_staged job_or_env_def)

lemma run_until_proxyUrl_minimal_initial:
  "run_until_proxyUrl_minimal w initial
     = (relabelled (fst (run_until_proxyUrl w initial)), snd (run_until_proxyUrl w initial))"
  using relabelled_run_until_proxyUrl [of w initial] by simp

lemma exported_relabel [simp]: "exported (map relabel es) = exported es"
  by (induction es rule: exported.induct) (simp_all add: relabel.simps(1))

lemma files_written_relabel [simp]: "files_written (map relabel es) = files_written es"
  by (induction es rule: files_written.induct) (simp_all add: relabel.simps(1))

lemma run_minimal_split:
  "run_minimal w initial =
     (case snd (run_until_proxyUrl w initial) of
        Inl e \<Rightarrow> (relabelled (fst (run_until_proxyUrl w initial)), Inl e)
      | Inr None \<Rightarrow> (relabelled (fst (run_until_proxyUrl w initial)), Inr ())
      | Inr (Some pu) \<Rightarrow>
          publish_minimal w (fst pu) (snd pu) (relabelled (fst (run_until_proxyUrl w initial))))"
  by (simp add: run_minimal_def run_until_proxyUrl_minimal_initial
      split: sum.splits option.splits prod.splits)


subsection \<open>Exported variables\<close>

lemma exported_publish_minimal:
  "set (map fst (exported (trace (fst (publish_minimal w p u s)))))
     \<subseteq> set (map fst (exported (trace s))) \<union> {''MAVEN_OPTS'', ''GRADLE_OPTS''}"
  by (auto simp: publish_minimal_def writeFileSync_def Let_def split: sum.splits option.splits)

lemma published_variables_names:
  "map fst (published_variables w proxy proxyUrl) =
     [''MAVEN_OPTS'', ''GRADLE_OPTS'', ''SEMMLE_JAVA_EXTRACTOR_JVM_ARGS'',
      ''CODEQL_JAVA_EXTRACTOR_TRUST_STORE_PATH'', ''PROXY_NETWORK_NAME'',
      ''PROXY_HOST'', ''PROXY_PORT'', ''PROXY_CA_CERT'']"
  by (simp add: published_variables_def)

text \<open>
  C8, as the code has it. When the run of the richer variant completes, every variable
  name that the run of the minimal variant exports in the same world is exported by the
  richer variant too, and if the richer variant exports anything, it exports
  \<^verbatim>\<open>PROXY_HOST\<close>, which the minimal variant does not. Nothing is said of the values and
  of the files: they differ.
\<close>

theorem minimal_exports_fewer_names:
  assumes "snd (run w initial) = Inr ()"
  shows "set (map fst (exported (trace (fst (run_minimal w initial)))))
           \<subseteq> set (map fst (exported (trace (fst (run w initial)))))
       \<and> (exported (trace (fst (run w initial))) = []
          \<or> (''PROXY_HOST'' \<in> set (map fst (exported (trace (fst (run w initial)))))
              \<and> ''PROXY_HOST'' \<notin> set (map fst (exported (trace (fst (run_minimal w initial)))))))"
proof -
  let ?u = "run_until_proxyUrl w initial"
  from assms obtain r where r: "snd ?u = Inr r"
    by (cases "snd ?u") (simp_all add: run_split)
  show ?thesis
  proof (cases r)
    case None
    with r show ?thesis
      by (simp add: run_split run_minimal_split no_outputs_until_proxyUrl)
  next
    case (Some pu)
    obtain proxy proxyUrl where pu: "pu = (proxy, proxyUrl)"
      by (cases pu)
    from r Some pu have run: "run w initial = publish w proxy proxyUrl (fst ?u)"
      and minimal: "run_minimal w initial = publish_minimal w proxy proxyUrl (relabelled (fst ?u))"
      by (simp_all add: run_split run_minimal_split)
    from assms run have "snd (publish w proxy proxyUrl (fst ?u)) = Inr ()"
      by simp
    from publish_success [OF this]
    have rich: "exported (trace (fst (run w initial))) = published_variables w proxy proxyUrl"
      by (auto simp: run no_outputs_until_proxyUrl)
    have few: "set (map fst (exported (trace (fst (run_minimal w initial)))))
        \<subseteq> {''MAVEN_OPTS'', ''GRADLE_OPTS''}"
      using exported_publish_minimal [of w proxy proxyUrl "relabelled (fst ?u)"]
      by (simp add: minimal no_outputs_until_proxyUrl)
    have "''PROXY_HOST'' \<notin> set (map fst (exported (trace (fst (run_minimal w initial)))))"
      using few by auto
    moreover have "set (map fst (exported (trace (fst (run_minimal w initial)))))
           \<subseteq> set (map fst (exported (trace (fst (run w initial)))))"
      using few by (auto simp: rich published_variables_names)
    moreover have "''PROXY_HOST'' \<in> set (map fst (exported (trace (fst (run w initial)))))"
      by (simp add: rich published_variables_names)
    ultimately show ?thesis by simp
  qed
qed

theorem minimal_exports_fewer_names_witness:
  "snd (run world_ok initial) = Inr ()
   \<and> set (map fst (exported (trace (fst (run_minimal world_ok initial)))))
       \<subseteq> set (map fst (exported (trace (fst (run world_ok initial)))))
   \<and> ''PROXY_HOST'' \<in> set (map fst (exported (trace (fst (run world_ok initial)))))
   \<and> ''PROXY_HOST'' \<notin> set (map fst (exported (trace (fst (run_minimal world_ok initial)))))
   \<and> ''MAVEN_OPTS'' \<in> set (map fst (exported (trace (fst (run_minimal world_ok initial)))))"
proof -
  have h: "snd (run world_ok initial) = Inr ()"
    using successful_world_ok by (simp add: successful_def)
  have m: "''MAVEN_OPTS'' \<in> set (map fst (exported (trace (fst (run_minimal world_ok initial)))))"
    by (simp add: run_defs params_defs world_defs)
  then have "exported (trace (fst (run world_ok initial))) \<noteq> []"
    using minimal_exports_fewer_names [OF h] by auto
  with minimal_exports_fewer_names [OF h] h m show ?thesis
    by simp
qed

text \<open>
  C8, as stated, fails: in \<open>world_ok\<close> the minimal variant exports \<^verbatim>\<open>MAVEN_OPTS\<close> with a
  value that the richer variant does not export (the richer value has the resolved path
  and the trust-store password), and writes the trust store under a path, with a content
  and in an encoding that the richer variant does not write.
\<close>

theorem minimal_value_not_in_richer:
  "(''MAVEN_OPTS'', minimal_MAVEN_OPTS)
     \<in> set (exported (trace (fst (run_minimal world_ok initial))))
   \<and> (''MAVEN_OPTS'', minimal_MAVEN_OPTS)
     \<notin> set (exported (trace (fst (run world_ok initial))))
   \<and> (''keystore.p12'', ''/PEM/'', Utf8)
     \<in> set (files_written (trace (fst (run_minimal world_ok initial))))
   \<and> (''keystore.p12'', ''/PEM/'', Utf8)
     \<notin> set (files_written (trace (fst (run world_ok initial))))"
proof -
  have minimal: "exported (trace (fst (run_minimal world_ok initial)))
      = [(''MAVEN_OPTS'', minimal_MAVEN_OPTS),
         (''GRADLE_OPTS'',
          ''-Djavax.net.ssl.trustStore=keystore.p12 -Djavax.net.ssl.trustStoreType=PKCS12''
          @ '' -Dhttp.proxyHost=172.17.0.2 -Dhttp.proxyPort=1080''
          @ '' -Dhttps.proxyHost=172.17.0.2 -Dhttps.proxyPort=1080 '')]"
    "files_written (trace (fst (run_minimal world_ok initial))) = [(''keystore.p12'', ''/PEM/'', Utf8)]"
    by (simp_all add: run_defs params_defs world_defs minimal_MAVEN_OPTS_def
        JAVA_SSL_OPTS_minimal_def JAVA_PROXY_OPTS_def)
  have richer: "(''MAVEN_OPTS'', minimal_MAVEN_OPTS)
     \<notin> set (exported (trace (fst (run world_ok initial))))"
    "(''keystore.p12'', ''/PEM/'', Utf8)
     \<notin> set (files_written (trace (fst (run world_ok initial))))"
    by (simp_all add: run_defs params_defs world_defs minimal_MAVEN_OPTS_def
        JAVA_SSL_OPTS_def JAVA_PROXY_OPTS_def password_def)
  from minimal richer show ?thesis by simp
qed


section \<open>Credentials and the files written\<close>









lemma with_credentials_fields [simp]:
  "getJobParameters (with_credentials w f t) = getJobParameters w"
  "getJobDetails (with_credentials w f t) = getJobDetails w"
  "getCredentials (with_credentials w f t) = f"
  "reportJobError (with_credentials w f t) = reportJobError w"
  "markJobAsProcessed (with_credentials w f t) = markJobAsProcessed w"
  "PROXY_IMAGE_NAME (with_credentials w f t) = PROXY_IMAGE_NAME w"
  "ImageService_pull (with_credentials w f t) = ImageService_pull w"
  "proxyBuilder_run (with_credentials w f t) = proxyBuilder_run w"
  "container_start (with_credentials w f t) = container_start w"
  "proxy_url (with_credentials w f t) = proxy_url w"
  "new_URL (with_credentials w f t) = new_URL w"
  "generateKeyPair (with_credentials w f t) = generateKeyPair w"
  "certificateFromPem (with_credentials w f t) = certificateFromPem w"
  "toPkcs12Der (with_credentials w f t) = toPkcs12Der w"
  "path_resolve (with_credentials w f t) = path_resolve w"
  "path_join (with_credentials w f t) = path_join w"
  "homedir (with_credentials w f t) = homedir w"
  "fs_error (with_credentials w f t) = fs_error w"
  "k \<noteq> ''DEPENDABOT_CREDENTIALS'' \<Longrightarrow> process_env (with_credentials w f t) k = process_env w k"
  by (simp_all add: with_credentials_def)

lemma url_result_with_credentials [simp]:
  "url_result (with_credentials w f t) proxy = url_result w proxy"
  by (simp add: url_result_def split: sum.splits)

lemma build_result_with_credentials [simp]:
  "build_result (with_credentials w f t) = build_result w"
  by (simp add: build_result_def split: sum.splits)

lemma proxy_outcome_with_credentials [simp]:
  "proxy_outcome (with_credentials w f t) = proxy_outcome w"
  by (simp add: proxy_outcome_def split: sum.splits thrown.splits)

lemma publish_files_with_credentials [simp]:
  "publish_files (with_credentials w f t) proxy proxyUrl = publish_files w proxy proxyUrl"
  by (simp add: publish_files_def publish_def writeFileSync_def mkdirSync_def
        export_variables_def Let_def
      split: option.splits sum.splits)






end
